theory Spec2Isabelle
  imports Main
begin

section \<open>Values shared by the three clients\<close>

text \<open>
  The repository is three browser scripts: the lobby client (\<open>PokerClient\<close>), the game
  room client (\<open>GameRoomClient\<close>, \<open>static/js/game.js\<close>) and the ability dialog
  (\<open>AbilitySelectionManager\<close>). Each is a class with mutable fields whose methods run as
  event callbacks, one at a time. A method is modelled as a function from the state before
  to the state after; a method that can throw returns the exception beside the state it
  had reached, because what it did before throwing stays done.

  Numbers are the integers the server and the forms deal in (blinds, funds, card and seat
  indices), as \<open>int\<close>. The modelled code passes them on and tests them for zero; the
  one place where it computes with them is \<open>createLobby\<close>, whose two products are
  rounded the way JavaScript's doubles round them. Strings are \<open>string\<close>; the lower and upper casing below is that of
  the ASCII letters, which is what \<open>toLowerCase\<close> and \<open>toUpperCase\<close> do on ASCII text.
\<close>

datatype error = TypeError

datatype jsval = JUndefined | JNull | JBool bool | JNum int | JNaN | JStr string

text \<open>
  A template literal glues fixed text and interpolated values; \<open>N n\<close> is the decimal
  text of the number \<open>n\<close>.
\<close>

datatype part = S string | N int

type_synonym tmpl = "part list"

record message =
  event :: string
  payload :: "(string \<times> jsval) list"

definition toLowerChar :: "char \<Rightarrow> char" where
  "toLowerChar c =
     (let n = (of_char c :: nat) in if 65 \<le> n \<and> n \<le> 90 then char_of (n + 32) else c)"

definition toUpperChar :: "char \<Rightarrow> char" where
  "toUpperChar c =
     (let n = (of_char c :: nat) in if 97 \<le> n \<and> n \<le> 122 then char_of (n - 32) else c)"

definition toLowerCase :: "string \<Rightarrow> string" where
  "toLowerCase s = map toLowerChar s"

definition toUpperCase :: "string \<Rightarrow> string" where
  "toUpperCase s = map toUpperChar s"

section \<open>Game room client: card strings\<close>

text \<open>
  \<open>cardString.toLowerCase().split(' of ')\<close>: the pieces between the occurrences of the
  separator, found from the left without overlap. \<open>cur\<close> is the piece being read.
\<close>

fun split_of :: "string \<Rightarrow> string \<Rightarrow> string list" where
  "split_of cur [] = [cur]"
| "split_of cur (c # cs) =
     (if take 4 (c # cs) = '' of '' then cur # split_of [] (drop 3 cs)
      else split_of (cur @ [c]) cs)"

text \<open>The four suit symbols, U+2665, U+2666, U+2663 and U+2660, as their UTF-8 bytes.\<close>

definition sym_hearts :: string where
  "sym_hearts = [CHR 0xE2, CHR 0x99, CHR 0xA5]"

definition sym_diamonds :: string where
  "sym_diamonds = [CHR 0xE2, CHR 0x99, CHR 0xA6]"

definition sym_clubs :: string where
  "sym_clubs = [CHR 0xE2, CHR 0x99, CHR 0xA3]"

definition sym_spades :: string where
  "sym_spades = [CHR 0xE2, CHR 0x99, CHR 0xA0]"

record card_info =
  display :: string
  isRed :: bool

definition shortRank :: "string \<Rightarrow> string" where
  "shortRank rank =
     (if rank = ''ace'' then ''A''
      else if rank = ''king'' then ''K''
      else if rank = ''queen'' then ''Q''
      else if rank = ''jack'' then ''J''
      else rank)"

text \<open>
  \<open>parseCard\<close>. In the default branch of the suit switch the source evaluates
  \<open>suit[0].toUpperCase()\<close>; for the empty suit \<open>suit[0]\<close> is \<open>undefined\<close> and the call
  throws a TypeError.
\<close>

definition parseCard :: "string \<Rightarrow> error + card_info" where
  "parseCard cardString =
     (let parts = split_of [] (toLowerCase cardString) in
      if length parts \<noteq> 2 then Inr \<lparr>display = cardString, isRed = False\<rparr>
      else
        let rank = parts ! 0; suit = parts ! 1 in
        if suit = ''hearts'' then Inr \<lparr>display = shortRank rank @ sym_hearts, isRed = True\<rparr>
        else if suit = ''diamonds'' then
          Inr \<lparr>display = shortRank rank @ sym_diamonds, isRed = True\<rparr>
        else if suit = ''clubs'' then
          Inr \<lparr>display = shortRank rank @ sym_clubs, isRed = False\<rparr>
        else if suit = ''spades'' then
          Inr \<lparr>display = shortRank rank @ sym_spades, isRed = False\<rparr>
        else
          (case suit of
             [] \<Rightarrow> Inl TypeError
           | c # _ \<Rightarrow> Inr \<lparr>display = shortRank rank @ toUpperCase [c], isRed = False\<rparr>))"

section \<open>Game room client: data\<close>

text \<open>
  The game snapshot, as the fields \<open>game.js\<close> reads. A guard of the form
  \<open>xs && xs.length > 0\<close> treats a missing list like the empty one, so \<open>HoleCards\<close>,
  \<open>Abilities\<close> and \<open>Board\<close> are plain lists; \<open>Players\<close> and \<open>TurnManager\<close> are tested
  for presence on their own and are options.
\<close>

record ability =
  ability_Name :: string
  ability_Type :: string
  ability_Description :: string

record player =
  Name :: string
  Balance :: int
  IsMyTurn :: bool
  IsFolded :: bool
  IsAllIn :: bool
  HasActedThisRound :: bool
  CurrentBet :: int
  HoleCards :: "string list"
  Abilities :: "ability list"

record turn_manager =
  tm_CurrentBet :: int

record game_state =
  CurrentPhase :: string
  Pot :: int
  CurrentPlayer :: string
  TurnManager :: "turn_manager option"
  Players :: "player list option"
  Board :: "string list"

record player_action =
  PlayerName :: string
  Action :: string
  Amount :: int

text \<open>What the page shows: one field for each element the scripts write.\<close>

record turn_item =
  item_classes :: "string list"
  turn_name :: tmpl
  turn_status :: string
  player_bet :: tmpl
  last_action :: "(string \<times> string) option"

datatype turn_region = TurnMessage string | TurnItems "turn_item list"

record card_el =
  className :: string
  textContent :: string

record ability_btn =
  btn_name :: string
  btn_description :: string
  data_ability :: string
  click_type :: string

datatype abilities_region = AbilityMessage string | AbilityButtons "ability_btn list"

section \<open>Ability dialog: data\<close>

text \<open>
  The payload of \<open>ability_choice_required\<close>. \<open>abilityUsed\<close> is the tag every such
  message carries; the other fields are optional and the source supplies defaults with
  \<open>||\<close>.
\<close>

record player_opt =
  opt_id :: int
  opt_name :: string
  opt_balance :: int

record card_opt =
  copt_index :: int
  copt_name :: string

record reveal_opt =
  ropt_value :: bool
  ropt_name :: string

record card_choice =
  choice_index :: int
  choice_card :: string
  isDrawnCard :: bool

record drawn_card =
  drawn_Card :: string
  drawn_Rank :: jsval
  drawn_Suit :: jsval

record prompt =
  abilityUsed :: string
  prompt_message :: string
  instructions :: string
  step :: "int option"
  availablePlayers :: "player_opt list option"
  cardOptions :: "card_opt list option"
  revealOptions :: "reveal_opt list option"
  availableCards :: "card_choice list option"
  drawnCard :: "drawn_card option"
  availableBurntCards :: "card_choice list option"
  currentHoleCards :: "string list option"
  availableHoleCards :: "card_choice list option"
  chosenBurntCard :: "card_choice option"
  availableBoardCards :: "card_choice list option"

text \<open>
  The form controls inside \<open>ability-selection-content\<close>. The templates write a value
  attribute that is either empty or the decimal text of an integer field, and the source
  reads it back with \<open>parseInt\<close>: \<open>Num n\<close> is the text of \<open>n\<close>, \<open>Blank\<close> the empty
  string. The labels and captions of the form are not part of the model.
\<close>

datatype attr = Blank | Num int

record select_el =
  sel_options :: "attr list"
  sel_value :: attr

record radio_el =
  radio_value :: string
  radio_checked :: bool

record card_btn =
  grid_id :: string
  data_index :: attr
  data_card :: string
  selected :: bool

record form =
  peek_player :: "select_el option"
  peek_card :: "select_el option"
  burn_choice :: "radio_el list"
  card_selection_btns :: "card_btn list"

section \<open>Game room client: state\<close>

text \<open>
  The fields of \<open>GameRoomClient\<close> and of its \<open>AbilitySelectionManager\<close>, the
  \<open>playerToken\<close> item of \<open>localStorage\<close>, what \<open>socket.emit\<close> has sent (\<open>outbox\<close>,
  oldest first) and the page regions. A log line is kept without its clock-time prefix.
\<close>

record client =
  gameId :: string
  gameState :: "game_state option"
  playerToken :: "string option"
  outbox :: "message list"
  actions_log :: "(tmpl \<times> string) list"
  connection_status :: "string \<times> string"
  current_phase :: string
  current_pot :: tmpl
  current_bet_amount :: tmpl
  players_turn_list :: turn_region
  hole_cards :: "card_el list"
  board_cards :: "card_el list"
  ability_cards :: abilities_region
  currentAbility :: "string option"
  currentChoices :: "prompt option"
  window_hidden :: bool
  selection_title :: tmpl
  selection_message :: string
  selection_content :: form

definition emit :: "string \<Rightarrow> (string \<times> jsval) list \<Rightarrow> client \<Rightarrow> client" where
  "emit ev data s = s\<lparr>outbox := outbox s @ [\<lparr>event = ev, payload = data\<rparr>]\<rparr>"

definition addActionLog :: "tmpl \<Rightarrow> string \<Rightarrow> client \<Rightarrow> client" where
  "addActionLog msg type s =
     (let items = actions_log s @ [(msg, type)]
      in s\<lparr>actions_log := (if length items > 20 then tl items else items)\<rparr>)"

section \<open>Game room client: rendering\<close>

definition statusClass :: "player \<Rightarrow> string list" where
  "statusClass p =
     (if IsMyTurn p then [''current-turn'']
      else if IsFolded p then [''folded'']
      else if IsAllIn p then [''all-in'']
      else if HasActedThisRound p then [''acted'']
      else [])"

definition statusText :: "player \<Rightarrow> string" where
  "statusText p =
     (if IsMyTurn p then ''Current Turn''
      else if IsFolded p then ''Folded''
      else if IsAllIn p then ''All In''
      else if HasActedThisRound p then ''Waiting''
      else ''To Act'')"

definition lastAction :: "player \<Rightarrow> (string \<times> string) option" where
  "lastAction p =
     (if HasActedThisRound p \<and> \<not> IsFolded p \<and> \<not> IsAllIn p then
        (if CurrentBet p = 0 then Some (''player-action check'', ''Check'')
         else Some (''player-action call'', ''Call''))
      else if IsFolded p then Some (''player-action fold'', ''Fold'')
      else if IsAllIn p then Some (''player-action all-in'', ''All In'')
      else None)"

definition playerItem :: "player \<Rightarrow> turn_item" where
  "playerItem p =
     \<lparr>item_classes = ''player-turn-item'' # statusClass p,
      turn_name = [S (Name p), S '' ($'', N (Balance p), S '')''],
      turn_status = statusText p,
      player_bet = [S ''Bet: $'', N (CurrentBet p)],
      last_action = lastAction p\<rparr>"

definition updateTurnIndicator :: "client \<Rightarrow> client" where
  "updateTurnIndicator s =
     (case gameState s of
        None \<Rightarrow> s\<lparr>players_turn_list := TurnMessage ''No players available''\<rparr>
      | Some gs \<Rightarrow>
          (case Players gs of
             None \<Rightarrow> s\<lparr>players_turn_list := TurnMessage ''No players available''\<rparr>
           | Some ps \<Rightarrow> s\<lparr>players_turn_list := TurnItems (map playerItem ps)\<rparr>))"

definition revealed :: "card_info \<Rightarrow> card_el" where
  "revealed info =
     \<lparr>className = ''card-placeholder revealed '' @ (if isRed info then ''red-suit'' else ''black-suit''),
      textContent = display info\<rparr>"

text \<open>
  The \<open>forEach\<close> over the cards appends one element per card to the container; a card
  on which \<open>parseCard\<close> throws ends the loop with the elements appended so far.
\<close>

fun appendCards :: "string list \<Rightarrow> card_el list \<Rightarrow> error option \<times> card_el list" where
  "appendCards [] els = (None, els)"
| "appendCards (c # rest) els =
     (case parseCard c of
        Inl e \<Rightarrow> (Some e, els)
      | Inr info \<Rightarrow> appendCards rest (els @ [revealed info]))"

definition updateHoleCards :: "client \<Rightarrow> error option \<times> client" where
  "updateHoleCards s =
     (case gameState s of
        None \<Rightarrow> (None, s)
      | Some gs \<Rightarrow>
          (case Players gs of
             None \<Rightarrow> (None, s)
           | Some ps \<Rightarrow>
               (case find (\<lambda>p. HoleCards p \<noteq> []) ps of
                  Some myPlayer \<Rightarrow>
                    (let (err, els) = appendCards (HoleCards myPlayer) []
                     in (err, s\<lparr>hole_cards := els\<rparr>))
                | None \<Rightarrow>
                    (None, s\<lparr>hole_cards :=
                       [\<lparr>className = ''card-placeholder'', textContent = ''Card 1''\<rparr>,
                        \<lparr>className = ''card-placeholder'', textContent = ''Card 2''\<rparr>]\<rparr>))))"

definition board_names :: "string list" where
  "board_names = [''Flop 1'', ''Flop 2'', ''Flop 3'', ''Turn'', ''River'']"

definition hidden_card :: "nat \<Rightarrow> card_el" where
  "hidden_card i = \<lparr>className = ''card-placeholder hidden'', textContent = board_names ! i\<rparr>"

definition updateBoardCards :: "game_state \<Rightarrow> client \<Rightarrow> error option \<times> client" where
  "updateBoardCards gs s =
     (if Board gs \<noteq> [] then
        (case appendCards (Board gs) [] of
           (Some e, els) \<Rightarrow> (Some e, s\<lparr>board_cards := els\<rparr>)
         | (None, els) \<Rightarrow>
             (None, s\<lparr>board_cards := els @ map hidden_card [length (Board gs)..<5]\<rparr>))
      else (None, s\<lparr>board_cards := map hidden_card [0..<5]\<rparr>))"

definition abilityEl :: "ability \<Rightarrow> ability_btn" where
  "abilityEl a =
     \<lparr>btn_name = ability_Name a, btn_description = ability_Description a,
      data_ability = toLowerCase (ability_Type a), click_type = ability_Type a\<rparr>"

definition updateAbilities :: "client \<Rightarrow> client" where
  "updateAbilities s =
     (case gameState s of
        None \<Rightarrow> s\<lparr>ability_cards := AbilityMessage ''No game state available''\<rparr>
      | Some gs \<Rightarrow>
          (case Players gs of
             None \<Rightarrow> s\<lparr>ability_cards := AbilityMessage ''No game state available''\<rparr>
           | Some ps \<Rightarrow>
               (case find (\<lambda>p. Abilities p \<noteq> []) ps of
                  Some myPlayer \<Rightarrow>
                    s\<lparr>ability_cards := AbilityButtons (map abilityEl (Abilities myPlayer))\<rparr>
                | None \<Rightarrow> s\<lparr>ability_cards := AbilityMessage ''No abilities available''\<rparr>)))"

text \<open>
  \<open>updateGameDisplay\<close> writes the banner and then calls the four region updates in
  order; an exception in one of them leaves the later ones, and the closing log line,
  undone.
\<close>

definition updateGameDisplay :: "client \<Rightarrow> error option \<times> client" where
  "updateGameDisplay s =
     (case gameState s of
        None \<Rightarrow> (None, s)
      | Some gs \<Rightarrow>
          (let s1 = s\<lparr>current_phase := (if CurrentPhase gs = [] then ''-----'' else CurrentPhase gs),
                      current_pot := (if Pot gs = 0 then [S ''0''] else [N (Pot gs)]),
                      current_bet_amount :=
                        [N (case TurnManager gs of None \<Rightarrow> 0 | Some tm \<Rightarrow> tm_CurrentBet tm)]\<rparr>;
               s2 = updateTurnIndicator s1
           in case updateHoleCards s2 of
                (Some e, s3) \<Rightarrow> (Some e, s3)
              | (None, s3) \<Rightarrow>
                  (case updateBoardCards gs s3 of
                     (Some e, s4) \<Rightarrow> (Some e, s4)
                   | (None, s4) \<Rightarrow>
                       (None,
                        addActionLog
                          [S ''Phase: '', S (CurrentPhase gs), S '', Pot: '', N (Pot gs),
                           S '', Current Player: '',
                           S (if CurrentPlayer gs = [] then ''None'' else CurrentPlayer gs)]
                          ''system'' (updateAbilities s4)))))"

section \<open>Ability dialog: operations\<close>

definition or_list :: "'a list option \<Rightarrow> 'a list \<Rightarrow> 'a list" where
  "or_list xs d = (case xs of None \<Rightarrow> d | Some l \<Rightarrow> l)"

definition step_or_1 :: "prompt \<Rightarrow> int" where
  "step_or_1 data = (case step data of None \<Rightarrow> 1 | Some n \<Rightarrow> if n = 0 then 1 else n)"

text \<open>
  \<open>getAbilityTitle\<close> looks the lower-cased tag up in a table of seven titles and falls
  back to the tag followed by \<open>Ability\<close>. (The table is an object literal, so a tag that
  names a property every object inherits, such as \<open>constructor\<close>, would find that
  property; the title is display text, and the model gives such a tag the fallback title.)
\<close>

definition getAbilityTitle :: "prompt \<Rightarrow> tmpl" where
  "getAbilityTitle data =
     (let a = toLowerCase (abilityUsed data) in
      if a = ''peek'' then [S ''Peek Ability'']
      else if a = ''burn'' then [S ''Burn Ability'']
      else if a = ''manifest'' then [S ''Manifest Ability'']
      else if a = ''trashman'' then
        S ''Trashman Ability'' #
          (case step data of
             None \<Rightarrow> []
           | Some n \<Rightarrow> if n = 0 then [] else [S '' - Step '', N n])
      else if a = ''deadman'' then [S ''Deadman Ability'']
      else if a = ''chaos'' then [S ''Chaos Ability'']
      else if a = ''yoink'' then [S ''Yoink Ability'']
      else [S a, S '' Ability''])"

definition empty_form :: form where
  "empty_form = \<lparr>peek_player = None, peek_card = None, burn_choice = [], card_selection_btns = []\<rparr>"

definition card_button :: "string \<Rightarrow> card_choice \<Rightarrow> card_btn" where
  "card_button grid c =
     \<lparr>grid_id = grid, data_index = Num (choice_index c), data_card = choice_card c,
      selected = False\<rparr>"

definition createPeekInterface :: "prompt \<Rightarrow> form" where
  "createPeekInterface data =
     (let players = or_list (availablePlayers data) [];
          opts = or_list (cardOptions data)
                   [\<lparr>copt_index = 0, copt_name = ''First Card''\<rparr>,
                    \<lparr>copt_index = 1, copt_name = ''Second Card''\<rparr>]
      in empty_form
           \<lparr>peek_player :=
              Some \<lparr>sel_options = Blank # map (\<lambda>p. Num (opt_id p)) players, sel_value = Blank\<rparr>,
            peek_card :=
              Some \<lparr>sel_options = Blank # map (\<lambda>c. Num (copt_index c)) opts, sel_value = Blank\<rparr>\<rparr>)"

definition createBurnInterface :: "prompt \<Rightarrow> form" where
  "createBurnInterface data =
     (let options = or_list (revealOptions data)
                      [\<lparr>ropt_value = True, ropt_name = ''Reveal Suit''\<rparr>,
                       \<lparr>ropt_value = False, ropt_name = ''Reveal Rank''\<rparr>]
      in empty_form
           \<lparr>burn_choice :=
              map (\<lambda>(option, index).
                     \<lparr>radio_value = (if ropt_value option then ''true'' else ''false''),
                      radio_checked = (index = 0)\<rparr>)
                  (zip options [0..<length options])\<rparr>)"

definition createManifestInterface :: "prompt \<Rightarrow> form" where
  "createManifestInterface data =
     empty_form\<lparr>card_selection_btns := map (card_button []) (or_list (availableCards data) [])\<rparr>"

definition createTrashmanInterface :: "prompt \<Rightarrow> form" where
  "createTrashmanInterface data =
     (if step_or_1 data = 1 then
        empty_form\<lparr>card_selection_btns :=
          map (card_button []) (or_list (availableBurntCards data) [])\<rparr>
      else
        empty_form\<lparr>card_selection_btns :=
          map (card_button []) (or_list (availableHoleCards data) [])\<rparr>)"

definition createYoinkInterface :: "prompt \<Rightarrow> form" where
  "createYoinkInterface data =
     empty_form\<lparr>card_selection_btns :=
       map (card_button ''yoink-hole-grid'') (or_list (availableHoleCards data) []) @
       map (card_button ''yoink-board-grid'') (or_list (availableBoardCards data) [])\<rparr>"

definition createGenericInterface :: "prompt \<Rightarrow> form" where
  "createGenericInterface data = empty_form"

definition showAbilitySelection :: "prompt \<Rightarrow> client \<Rightarrow> client" where
  "showAbilitySelection data s =
     (let title = getAbilityTitle data;
          msg = (if prompt_message data \<noteq> [] then prompt_message data
                 else if instructions data \<noteq> [] then instructions data
                 else ''Make your selection'');
          a = toLowerCase (abilityUsed data);
          content =
            (if a = ''peek'' then createPeekInterface data
             else if a = ''burn'' then createBurnInterface data
             else if a = ''manifest'' then createManifestInterface data
             else if a = ''trashman'' then createTrashmanInterface data
             else if a = ''yoink'' then createYoinkInterface data
             else createGenericInterface data)
      in addActionLog (title @ [S '' - '', S msg]) ''system''
           (s\<lparr>currentAbility := Some (abilityUsed data),
              currentChoices := Some data,
              selection_title := title,
              selection_message := msg,
              selection_content := content,
              window_hidden := False\<rparr>))"

definition hideSelectionWindow :: "client \<Rightarrow> client" where
  "hideSelectionWindow s = s\<lparr>window_hidden := True, currentAbility := None, currentChoices := None\<rparr>"

definition parseInt :: "attr \<Rightarrow> jsval" where
  "parseInt a = (case a of Blank \<Rightarrow> JNaN | Num n \<Rightarrow> JNum n)"

text \<open>
  \<open>getPeekSelection\<close> reads the two selects with \<open>?.value\<close>: a missing player select
  gives \<open>undefined\<close>, which \<open>!playerId\<close> rejects; a missing card select gives
  \<open>undefined\<close>, which is not the empty string and parses to NaN.
\<close>

definition getPeekSelection :: "form \<Rightarrow> (string \<times> jsval) list option" where
  "getPeekSelection f =
     (case peek_player f of
        None \<Rightarrow> None
      | Some pl \<Rightarrow>
          if sel_value pl = Blank then None
          else
            (case peek_card f of
               None \<Rightarrow> Some [(''targetPlayerId'', parseInt (sel_value pl)), (''cardIndex'', JNaN)]
             | Some cd \<Rightarrow>
                 if sel_value cd = Blank then None
                 else Some [(''targetPlayerId'', parseInt (sel_value pl)),
                            (''cardIndex'', parseInt (sel_value cd))]))"

definition getBurnSelection :: "form \<Rightarrow> (string \<times> jsval) list option" where
  "getBurnSelection f =
     (case find radio_checked (burn_choice f) of
        None \<Rightarrow> None
      | Some r \<Rightarrow> Some [(''revealSuit'', JBool (radio_value r = ''true''))])"

definition getManifestSelection :: "prompt \<Rightarrow> form \<Rightarrow> (string \<times> jsval) list option" where
  "getManifestSelection choices f =
     (case find selected (card_selection_btns f) of
        None \<Rightarrow> None
      | Some b \<Rightarrow>
          Some [(''discardIndex'', parseInt (data_index b)),
                (''drawnCard'', (case drawnCard choices of None \<Rightarrow> JNull | Some d \<Rightarrow> drawn_Rank d)),
                (''drawnCardSuit'',
                 (case drawnCard choices of None \<Rightarrow> JNull | Some d \<Rightarrow> drawn_Suit d))])"

definition getTrashmanSelection :: "prompt \<Rightarrow> form \<Rightarrow> (string \<times> jsval) list option" where
  "getTrashmanSelection choices f =
     (case find selected (card_selection_btns f) of
        None \<Rightarrow> None
      | Some b \<Rightarrow>
          if step_or_1 choices = 1 then Some [(''burntCardIndex'', parseInt (data_index b))]
          else
            Some [(''burntCardIndex'',
                   JNum (case chosenBurntCard choices of
                           None \<Rightarrow> 0
                         | Some c \<Rightarrow> if choice_index c = 0 then 0 else choice_index c)),
                  (''holeCardIndex'', parseInt (data_index b))])"

definition getYoinkSelection :: "form \<Rightarrow> (string \<times> jsval) list option" where
  "getYoinkSelection f =
     (case find (\<lambda>b. grid_id b = ''yoink-hole-grid'' \<and> selected b) (card_selection_btns f) of
        None \<Rightarrow> None
      | Some holeSelected \<Rightarrow>
          (case find (\<lambda>b. grid_id b = ''yoink-board-grid'' \<and> selected b)
                  (card_selection_btns f) of
             None \<Rightarrow> None
           | Some boardSelected \<Rightarrow>
               Some [(''cardIndex'', parseInt (data_index holeSelected)),
                     (''targetPlayerId'', parseInt (data_index boardSelected))]))"

definition getSelectionData :: "string \<Rightarrow> prompt \<Rightarrow> form \<Rightarrow> (string \<times> jsval) list option" where
  "getSelectionData ability choices f =
     (let a = toLowerCase ability in
      if a = ''peek'' then getPeekSelection f
      else if a = ''burn'' then getBurnSelection f
      else if a = ''manifest'' then getManifestSelection choices f
      else if a = ''trashman'' then getTrashmanSelection choices f
      else if a = ''yoink'' then getYoinkSelection f
      else None)"

text \<open>
  \<open>confirmSelection\<close>. After \<open>hideSelectionWindow\<close> the source calls
  \<open>getAbilityTitle(this.currentChoices)\<close> for its closing log line; the field was set to
  null a line earlier, so reading \<open>abilityUsed\<close> of it throws.
\<close>

definition confirmSelection :: "client \<Rightarrow> error option \<times> client" where
  "confirmSelection s =
     (case currentAbility s of
        None \<Rightarrow> (None, s)
      | Some ability \<Rightarrow>
          if ability = [] then (None, s)
          else
            (case currentChoices s of
               None \<Rightarrow> (None, s)
             | Some choices \<Rightarrow>
                 (case getSelectionData ability choices (selection_content s) of
                    None \<Rightarrow>
                      (None,
                       addActionLog [S ''Please make a selection before confirming''] ''system'' s)
                  | Some selection \<Rightarrow>
                      (let s1 = emit ''use_ability''
                                  ([(''gameId'', JStr (gameId s)), (''ability'', JStr ability)] @
                                   selection) s;
                           s2 = hideSelectionWindow s1
                       in case currentChoices s2 of
                            None \<Rightarrow> (Some TypeError, s2)
                          | Some c \<Rightarrow>
                              (None,
                               addActionLog (getAbilityTitle c @ [S '' - Selection confirmed''])
                                 ''player-action'' s2)))))"

definition cancelAbility :: "client \<Rightarrow> client" where
  "cancelAbility s =
     addActionLog [S ''Ability cancelled''] ''system''
       (hideSelectionWindow (emit ''cancel_ability'' [(''gameId'', JStr (gameId s))] s))"

text \<open>
  The click handler that \<open>bindCardSelection\<close> puts on every card button: it clears the
  \<open>selected\<close> class within the button's own grid for the two Yoink grids, and on every
  card button otherwise, then marks the clicked one.
\<close>

definition clickCardBtn :: "nat \<Rightarrow> client \<Rightarrow> client" where
  "clickCardBtn i s =
     (let f = selection_content s; btns = card_selection_btns f in
      if i < length btns then
        (let g = grid_id (btns ! i);
             cleared =
               (if g = ''yoink-hole-grid'' \<or> g = ''yoink-board-grid'' then
                  map (\<lambda>b. if grid_id b = g then b\<lparr>selected := False\<rparr> else b) btns
                else map (\<lambda>b. b\<lparr>selected := False\<rparr>) btns)
         in s\<lparr>selection_content :=
               f\<lparr>card_selection_btns := cleared[i := (cleared ! i)\<lparr>selected := True\<rparr>]\<rparr>\<rparr>)
      else s)"

text \<open>What the browser does when the user operates a select or a radio button.\<close>

definition chooseOption :: "attr \<Rightarrow> select_el \<Rightarrow> select_el" where
  "chooseOption v el = (if v \<in> set (sel_options el) then el\<lparr>sel_value := v\<rparr> else el)"

definition checkRadio :: "nat \<Rightarrow> radio_el list \<Rightarrow> radio_el list" where
  "checkRadio i rs =
     (if i < length rs then
        map (\<lambda>(r, k). r\<lparr>radio_checked := (k = i)\<rparr>) (zip rs [0..<length rs])
      else rs)"

section \<open>Game room client: commands and events\<close>

definition joinGame :: "client \<Rightarrow> client" where
  "joinGame s =
     (let s1 = addActionLog [S ''Joining game room...''] ''system'' s in
      case playerToken s1 of
        None \<Rightarrow> addActionLog [S ''Error: No authentication token found''] ''system'' s1
      | Some tok \<Rightarrow>
          if tok = [] then
            addActionLog [S ''Error: No authentication token found''] ''system'' s1
          else emit ''join_game'' [(''gameId'', JStr (gameId s1)), (''playerToken'', JStr tok)] s1)"

definition useAbility :: "string \<Rightarrow> client \<Rightarrow> client" where
  "useAbility abilityType s =
     emit ''use_ability''
       [(''gameId'', JStr (gameId s)), (''ability'', JStr (toLowerCase abilityType))]
       (addActionLog [S ''Using '', S abilityType, S '' ability...''] ''player-action'' s)"

text \<open>The messages the socket delivers, with the payload fields the handlers read.\<close>

datatype game_event =
    Connect
  | Disconnect
  | ConnectError
  | GameRoomJoined int int
  | WaitingForPlayers string
  | GameStarted "game_state option"
  | GameStateUpdate "game_state option"
  | GameError string
  | PlayerActionResult player_action "game_state option"
  | AbilityResult string
  | AbilityChoiceRequired prompt
  | AbilityError string
  | AbilityCancelled string

fun on_event :: "game_event \<Rightarrow> client \<Rightarrow> error option \<times> client" where
  "on_event Connect s = (None, s\<lparr>connection_status := (''connected'', ''Connected'')\<rparr>)"
| "on_event Disconnect s =
     (None,
      addActionLog [S ''Connection lost. Please refresh the page.''] ''system''
        (s\<lparr>connection_status := (''disconnected'', ''Disconnected'')\<rparr>))"
| "on_event ConnectError s =
     (None, s\<lparr>connection_status := (''disconnected'', ''Connection Error'')\<rparr>)"
| "on_event (GameRoomJoined playersJoined totalPlayers) s =
     (None,
      (addActionLog
         [S ''Joined game room ('', N playersJoined, S ''/'', N totalPlayers, S '' players)'']
         ''system'' s)\<lparr>playerToken := None\<rparr>)"
| "on_event (WaitingForPlayers msg) s = (None, addActionLog [S msg] ''system'' s)"
| "on_event (GameStarted gs) s =
     updateGameDisplay ((addActionLog [S ''Game started!''] ''important'' s)\<lparr>gameState := gs\<rparr>)"
| "on_event (GameStateUpdate gs) s = updateGameDisplay (s\<lparr>gameState := gs\<rparr>)"
| "on_event (GameError err) s = (None, addActionLog [S ''Error: '', S err] ''system'' s)"
| "on_event (PlayerActionResult pa gs) s =
     (let s1 = addActionLog
                 ([S (PlayerName pa), S '' '', S (toLowerCase (Action pa))] @
                  (if Amount pa = 0 then [] else [S '' $'', N (Amount pa)]))
                 ''player-action'' s
      in case gs of
           None \<Rightarrow> (None, s1)
         | Some g \<Rightarrow> updateGameDisplay (s1\<lparr>gameState := Some g\<rparr>))"
| "on_event (AbilityResult msg) s = (None, addActionLog [S msg] ''player-action'' s)"
| "on_event (AbilityChoiceRequired data) s = (None, showAbilitySelection data s)"
| "on_event (AbilityError err) s =
     (None, addActionLog [S ''Ability error: '', S err] ''system'' s)"
| "on_event (AbilityCancelled msg) s = (None, addActionLog [S msg] ''system'' s)"

text \<open>
  What the user can do on the page: the ability buttons, the four ways out of the dialog
  (\<open>ClickOverlay True\<close> is a click whose target is the overlay itself, outside the
  window; \<open>ClickOverlay False\<close> one that bubbles up from inside the window) and the form
  controls.
\<close>

datatype ui_action =
    ClickAbility string
  | ClickClose
  | ClickCancel
  | ClickConfirm
  | ClickOverlay bool
  | ChoosePeekPlayer attr
  | ChoosePeekCard attr
  | CheckBurn nat
  | ClickCard nat

fun on_click :: "ui_action \<Rightarrow> client \<Rightarrow> error option \<times> client" where
  "on_click (ClickAbility t) s = (None, useAbility t s)"
| "on_click ClickClose s = (None, hideSelectionWindow s)"
| "on_click ClickCancel s = (None, cancelAbility s)"
| "on_click ClickConfirm s = confirmSelection s"
| "on_click (ClickOverlay outside) s = (None, if outside then hideSelectionWindow s else s)"
| "on_click (ChoosePeekPlayer v) s =
     (None,
      s\<lparr>selection_content :=
          (selection_content s)
            \<lparr>peek_player := map_option (chooseOption v) (peek_player (selection_content s))\<rparr>\<rparr>)"
| "on_click (ChoosePeekCard v) s =
     (None,
      s\<lparr>selection_content :=
          (selection_content s)
            \<lparr>peek_card := map_option (chooseOption v) (peek_card (selection_content s))\<rparr>\<rparr>)"
| "on_click (CheckBurn i) s =
     (None,
      s\<lparr>selection_content :=
          (selection_content s)
            \<lparr>burn_choice := checkRadio i (burn_choice (selection_content s))\<rparr>\<rparr>)"
| "on_click (ClickCard i) s = (None, clickCardBtn i s)"

text \<open>
  A run of the page: socket messages and user actions, handled one after the other. An
  exception ends the callback it was thrown in and nothing else, so the next callback
  starts from the state the failed one left.
\<close>

datatype input = Recv game_event | User ui_action

fun handle :: "input \<Rightarrow> client \<Rightarrow> error option \<times> client" where
  "handle (Recv e) s = on_event e s"
| "handle (User a) s = on_click a s"

fun run :: "input list \<Rightarrow> client \<Rightarrow> client" where
  "run [] s = s"
| "run (i # rest) s = run rest (snd (handle i s))"

text \<open>
  The constructor: \<open>page\<close> is the page as loaded (its regions, and the stored token).
  Without a game id nothing is wired up; otherwise the dialog is created hidden and the
  join command goes out.
\<close>

definition init :: "string \<Rightarrow> client \<Rightarrow> client" where
  "init gid page =
     (let s0 = page\<lparr>gameId := gid, gameState := None, outbox := [],
                    currentAbility := None, currentChoices := None, window_hidden := True,
                    selection_title := [S ''Choose Action''],
                    selection_message := ''Select an option:'',
                    selection_content := empty_form\<rparr>
      in if gid = [] \<or> gid = ''-----'' then
           addActionLog [S ''Error: No game ID provided''] ''system'' s0
         else joinGame s0)"

section \<open>Lobby client\<close>

text \<open>
  The lobby snapshot and the fields of \<open>PokerClient\<close>, with the page elements its
  methods write, the console (where \<open>showMessage\<close> prints), the pending timeouts of
  \<open>showError\<close> (delay in milliseconds and the element to hide), the stored token and the
  page address.
\<close>

record lobby_player =
  p_username :: string
  p_socketId :: string
  p_isHost :: bool
  p_isReady :: bool

record lobby_config =
  smallBlind :: int
  bigBlind :: int
  startingFunds :: int
  maxPlayers :: int

record lobby =
  lobby_name :: string
  lobby_code :: string
  players :: "lobby_player list"
  config :: lobby_config

record error_slot =
  err_text :: string
  err_show :: bool

record start_btn =
  disabled :: bool
  start_text :: string
  start_display :: string

record ready_btn =
  ready_text :: string
  ready_primary :: bool

record player_item =
  pi_classes :: "string list"
  pi_name :: string
  pi_status :: string

record lobby_client =
  socket_id :: string
  sent :: "message list"
  username :: string
  currentLobby :: "lobby option"
  isHost :: bool
  isReady :: bool
  active_screen :: string
  console :: "string list"
  error_slots :: "string \<Rightarrow> error_slot"
  timers :: "(nat \<times> string) list"
  stored_token :: "string option"
  location_href :: string
  player_username :: string
  lobby_title :: string
  lobby_code_text :: string
  max_player_count :: int
  player_count :: nat
  players_list :: "player_item list"
  display_small_blind :: int
  display_big_blind :: int
  display_starting_funds :: int
  edit_settings_display :: string
  start_game_btn :: start_btn
  toggle_ready_btn :: ready_btn

definition lobby_emit :: "string \<Rightarrow> (string \<times> jsval) list \<Rightarrow> lobby_client \<Rightarrow> lobby_client" where
  "lobby_emit ev data s = s\<lparr>sent := sent s @ [\<lparr>event = ev, payload = data\<rparr>]\<rparr>"

definition showScreen :: "string \<Rightarrow> lobby_client \<Rightarrow> lobby_client" where
  "showScreen screenId s = s\<lparr>active_screen := screenId\<rparr>"

definition showMessage :: "string \<Rightarrow> string \<Rightarrow> lobby_client \<Rightarrow> lobby_client" where
  "showMessage msg type s = s\<lparr>console := console s @ [toUpperCase type @ '': '' @ msg]\<rparr>"

definition showError :: "string \<Rightarrow> string \<Rightarrow> lobby_client \<Rightarrow> lobby_client" where
  "showError elementId msg s =
     s\<lparr>error_slots := (error_slots s)(elementId := \<lparr>err_text = msg, err_show = True\<rparr>),
       timers := timers s @ [(5000, elementId)]\<rparr>"

definition hideError :: "string \<Rightarrow> lobby_client \<Rightarrow> lobby_client" where
  "hideError elementId s =
     s\<lparr>error_slots := (error_slots s)(elementId := (error_slots s elementId)\<lparr>err_show := False\<rparr>)\<rparr>"

text \<open>The callback of the \<open>i\<close>-th pending timeout runs: it hides its element.\<close>

definition timeout_fires :: "nat \<Rightarrow> lobby_client \<Rightarrow> lobby_client" where
  "timeout_fires i s =
     (if i < length (timers s) then
        (let elementId = snd (timers s ! i)
         in s\<lparr>error_slots :=
                (error_slots s)(elementId := (error_slots s elementId)\<lparr>err_show := False\<rparr>),
              timers := take i (timers s) @ drop (Suc i) (timers s)\<rparr>)
      else s)"

definition updateLobbyDisplay :: "lobby_client \<Rightarrow> lobby_client" where
  "updateLobbyDisplay s =
     (case currentLobby s of
        None \<Rightarrow> s
      | Some l \<Rightarrow>
          s\<lparr>lobby_title := lobby_name l, lobby_code_text := lobby_code l,
            max_player_count := maxPlayers (config l)\<rparr>)"

definition updateReadyButton :: "lobby_client \<Rightarrow> lobby_client" where
  "updateReadyButton s =
     (if isReady s then s\<lparr>toggle_ready_btn := \<lparr>ready_text = ''Not Ready'', ready_primary = True\<rparr>\<rparr>
      else s\<lparr>toggle_ready_btn := \<lparr>ready_text = ''Ready Up'', ready_primary = False\<rparr>\<rparr>)"

definition playerEl :: "lobby_player \<Rightarrow> player_item" where
  "playerEl p =
     \<lparr>pi_classes =
        ''player-item'' #
          (if p_isHost p \<and> p_isReady p then [''host'', ''ready'']
           else if p_isHost p then [''host'']
           else if p_isReady p then [''ready'']
           else []),
      pi_name = p_username p,
      pi_status =
        (if p_isHost p then (if p_isReady p then ''HOST (READY)'' else ''HOST (NOT READY)'')
         else (if p_isReady p then ''READY'' else ''NOT READY''))\<rparr>"

fun eachPlayer :: "lobby_player list \<Rightarrow> lobby_client \<Rightarrow> lobby_client" where
  "eachPlayer [] s = s"
| "eachPlayer (p # ps) s =
     (let s1 = (if p_socketId p = socket_id s then updateReadyButton (s\<lparr>isReady := p_isReady p\<rparr>)
                else s)
      in eachPlayer ps (s1\<lparr>players_list := players_list s1 @ [playerEl p]\<rparr>))"

definition updatePlayersDisplay :: "lobby_client \<Rightarrow> lobby_client" where
  "updatePlayersDisplay s =
     (case currentLobby s of
        None \<Rightarrow> s
      | Some l \<Rightarrow>
          eachPlayer (players l) (s\<lparr>player_count := length (players l), players_list := []\<rparr>))"

definition updateSettingsDisplay :: "lobby_client \<Rightarrow> lobby_client" where
  "updateSettingsDisplay s =
     (case currentLobby s of
        None \<Rightarrow> s
      | Some l \<Rightarrow>
          s\<lparr>display_small_blind := smallBlind (config l),
            display_big_blind := bigBlind (config l),
            display_starting_funds := startingFunds (config l)\<rparr>)"

definition updateHostControls :: "lobby_client \<Rightarrow> lobby_client" where
  "updateHostControls s =
     (if isHost s then
        s\<lparr>edit_settings_display := ''inline-block'',
          start_game_btn := (start_game_btn s)\<lparr>start_display := ''inline-block''\<rparr>\<rparr>
      else
        s\<lparr>edit_settings_display := ''none'',
          start_game_btn := (start_game_btn s)\<lparr>start_display := ''none''\<rparr>\<rparr>)"

definition updateStartButton :: "lobby_client \<Rightarrow> lobby_client" where
  "updateStartButton s =
     (if \<not> isHost s then s
      else
        (case currentLobby s of
           None \<Rightarrow> s
         | Some l \<Rightarrow>
             (let ps = players l;
                  canStart = (length ps \<ge> 2 \<and> list_all p_isReady ps)
              in s\<lparr>start_game_btn :=
                    (start_game_btn s)
                      \<lparr>disabled := \<not> canStart,
                       start_text :=
                         (if canStart then ''Start Game''
                          else if length ps < 2 then ''Need More Players''
                          else ''Waiting for Players'')\<rparr>\<rparr>)))"

definition showLobbyRoom :: "lobby_client \<Rightarrow> lobby_client" where
  "showLobbyRoom s =
     updateStartButton
       (updateHostControls
          (updateSettingsDisplay
             (updatePlayersDisplay (updateLobbyDisplay (showScreen ''lobby-room-screen'' s)))))"

text \<open>The messages of the lobby channel, with the payload fields the handlers read.\<close>

datatype lobby_event =
    UsernameSet string string
  | UsernameError string
  | LobbyCreated lobby string
  | LobbyJoined lobby string string
  | LobbyError string
  | PlayerJoined lobby string
  | PlayerLeft lobby string
  | PlayerReadyChanged lobby string
  | LobbyConfigUpdated lobby string
  | LobbyLeft string
  | TransitionToGame string string
  | LobbyGameError string

fun on_lobby_event :: "lobby_event \<Rightarrow> lobby_client \<Rightarrow> lobby_client" where
  "on_lobby_event (UsernameSet name msg) s =
     (showScreen ''lobby-menu-screen'' (showMessage msg ''success'' (s\<lparr>username := name\<rparr>)))
       \<lparr>player_username := name\<rparr>"
| "on_lobby_event (UsernameError err) s = showError ''username-error'' err s"
| "on_lobby_event (LobbyCreated l msg) s =
     showLobbyRoom (showMessage msg ''success'' (s\<lparr>currentLobby := Some l, isHost := True\<rparr>))"
| "on_lobby_event (LobbyJoined l assignedUsername msg) s =
     showLobbyRoom
       (showMessage msg ''success''
          (s\<lparr>currentLobby := Some l, isHost := False, username := assignedUsername\<rparr>))"
| "on_lobby_event (LobbyError err) s =
     (let s1 = showMessage err ''error'' s;
          s2 = (if active_screen s1 = ''create-lobby-screen''
                then showError ''create-lobby-error'' err s1 else s1)
      in if active_screen s2 = ''join-lobby-screen''
         then showError ''join-lobby-error'' err s2 else s2)"
| "on_lobby_event (PlayerJoined l msg) s =
     updateStartButton
       (updatePlayersDisplay (showMessage msg ''success'' (s\<lparr>currentLobby := Some l\<rparr>)))"
| "on_lobby_event (PlayerLeft l msg) s =
     updateStartButton
       (updatePlayersDisplay (showMessage msg ''warning'' (s\<lparr>currentLobby := Some l\<rparr>)))"
| "on_lobby_event (PlayerReadyChanged l msg) s =
     updateStartButton
       (updatePlayersDisplay (showMessage msg ''success'' (s\<lparr>currentLobby := Some l\<rparr>)))"
| "on_lobby_event (LobbyConfigUpdated l msg) s =
     updateSettingsDisplay (showMessage msg ''success'' (s\<lparr>currentLobby := Some l\<rparr>))"
| "on_lobby_event (LobbyLeft msg) s =
     showScreen ''lobby-menu-screen''
       (showMessage msg ''success'' (s\<lparr>currentLobby := None, isHost := False, isReady := False\<rparr>))"
| "on_lobby_event (TransitionToGame gid token) s =
     s\<lparr>stored_token := Some token, location_href := ''/game/'' @ gid\<rparr>"
| "on_lobby_event (LobbyGameError err) s = showMessage err ''error'' s"

text \<open>
  \<open>createLobby\<close> reads five inputs. The name is taken as \<open>value.trim()\<close> returns it.
  \<open>parseInt\<close> of a number field is taken as it comes back: \<open>None\<close> is NaN, \<open>Some n\<close> the
  double with the integer value \<open>n\<close>; \<open>parseInt(v) || d\<close> replaces NaN and 0 by the
  default.
\<close>

record create_inputs =
  lobbyName_input :: string
  small_blind_input :: "int option"
  big_blind_input :: "int option"
  starting_funds_input :: "int option"
  max_players_input :: "int option"

definition or_default :: "int option \<Rightarrow> int \<Rightarrow> int" where
  "or_default v d = (case v of None \<Rightarrow> d | Some n \<Rightarrow> if n = 0 then d else n)"

text \<open>
  The product of two doubles is the exact product rounded to the nearest double, ties to
  the even significand. For an integer \<open>m\<close> of more than 53 bits, \<open>expo m\<close> is the number
  of low bits that do not fit (9007199254740992 is \<open>2 ^ 53\<close>); \<open>round53_nat\<close> keeps the
  top 53 bits and rounds on the rest. A result of magnitude \<open>2 ^ 1024\<close> or more is
  Infinity, for which \<open>2 ^ 1024\<close> itself stands: it compares above every finite double
  and stays Infinity under the two multiplications.
\<close>

function expo :: "nat \<Rightarrow> nat" where
  "expo m = (if m < 9007199254740992 then 0 else Suc (expo (m div 2)))"
  by pat_completeness auto
termination
  by (relation "measure (\<lambda>m. m)") auto

declare expo.simps [simp del]

definition round53_nat :: "nat \<Rightarrow> nat" where
  "round53_nat m =
     (let e = expo m; q = m div 2 ^ e; r = m mod 2 ^ e in
      if e = 0 then m
      else (if 2 * r > 2 ^ e \<or> (2 * r = 2 ^ e \<and> odd q) then q + 1 else q) * 2 ^ e)"

definition round53 :: "int \<Rightarrow> int" where
  "round53 n =
     (if n < 0 then - int (round53_nat (nat (- n))) else int (round53_nat (nat n)))"

definition mul :: "int \<Rightarrow> int \<Rightarrow> int" where
  "mul a b =
     (let r = round53 (a * b) in
      if r \<ge> 2 ^ 1024 then 2 ^ 1024
      else if r \<le> - (2 ^ 1024) then - (2 ^ 1024)
      else r)"

definition createLobby :: "create_inputs \<Rightarrow> lobby_client \<Rightarrow> lobby_client" where
  "createLobby inputs s =
     (let s1 = hideError ''create-lobby-error'' s;
          lobbyName = lobbyName_input inputs;
          sb = or_default (small_blind_input inputs) 5;
          bb = or_default (big_blind_input inputs) 10;
          funds = or_default (starting_funds_input inputs) 1000;
          maxP = or_default (max_players_input inputs) 8
      in if bb < mul sb 2 then
           showError ''create-lobby-error''
             ''Big blind must be at least double the small blind'' s1
         else if funds < mul bb 10 then
           showError ''create-lobby-error''
             ''Starting funds must be at least 10 times the big blind'' s1
         else
           lobby_emit ''create_lobby''
             [(''name'', JStr (if lobbyName = [] then username s1 @ [CHR 0x27] @ ''s Table''
                               else lobbyName)),
              (''smallBlind'', JNum sb),
              (''bigBlind'', JNum bb),
              (''startingFunds'', JNum funds),
              (''maxPlayers'', JNum maxP)] s1)"

section \<open>Notions the properties are stated with\<close>

text \<open>
  The derived regions of the game page: the phase, pot and bet banner, the per-seat turn
  list, the own hole cards, the board cards and the own ability list.
\<close>

definition regions ::
  "client \<Rightarrow> string \<times> tmpl \<times> tmpl \<times> turn_region \<times> card_el list \<times> card_el list \<times> abilities_region" where
  "regions s =
     (current_phase s, current_pot s, current_bet_amount s, players_turn_list s,
      hole_cards s, board_cards s, ability_cards s)"

text \<open>
  The first step of \<open>updateGameDisplay\<close> on its own: the writes to the phase, pot
  and bet banner.
\<close>

definition banner :: "game_state \<Rightarrow> client \<Rightarrow> client" where
  "banner gs s =
     s\<lparr>current_phase := (if CurrentPhase gs = [] then ''-----'' else CurrentPhase gs),
       current_pot := (if Pot gs = 0 then [S ''0''] else [N (Pot gs)]),
       current_bet_amount :=
         [N (case TurnManager gs of None \<Rightarrow> 0 | Some tm \<Rightarrow> tm_CurrentBet tm)]\<rparr>"

text \<open>What the ability dialog shows: whether it is hidden, and its title, message and form.\<close>

definition dialog_view :: "client \<Rightarrow> bool \<times> tmpl \<times> string \<times> form" where
  "dialog_view s = (window_hidden s, selection_title s, selection_message s, selection_content s)"

text \<open>
  The priority rule in the specification's words: go through the flags in order, the
  first one that is set decides, and if none is set the default applies.
\<close>

fun first_match_spec :: "(bool \<times> 'a) list \<Rightarrow> 'a \<Rightarrow> 'a" where
  "first_match_spec [] d = d"
| "first_match_spec ((flag, v) # rest) d = (if flag then v else first_match_spec rest d)"

text \<open>The user actions that operate the form controls of the dialog.\<close>

fun form_action :: "ui_action \<Rightarrow> bool" where
  "form_action (ChoosePeekPlayer v) = True"
| "form_action (ChoosePeekCard v) = True"
| "form_action (CheckBurn i) = True"
| "form_action (ClickCard i) = True"
| "form_action a = False"

text \<open>
  The specification's account of the dialog, per ability tag: which field names the
  outbound selection carries, and when a required field of the form is still unset.
\<close>

definition known_tag :: "string \<Rightarrow> bool" where
  "known_tag tag =
     (toLowerCase tag = ''peek'' \<or> toLowerCase tag = ''burn'' \<or> toLowerCase tag = ''manifest'' \<or>
      toLowerCase tag = ''trashman'' \<or> toLowerCase tag = ''yoink'')"

definition shape_spec :: "prompt \<Rightarrow> string list" where
  "shape_spec data =
     (let a = toLowerCase (abilityUsed data) in
      if a = ''peek'' then [''targetPlayerId'', ''cardIndex'']
      else if a = ''burn'' then [''revealSuit'']
      else if a = ''manifest'' then [''discardIndex'', ''drawnCard'', ''drawnCardSuit'']
      else if a = ''trashman'' then
        (if step_or_1 data = 1 then [''burntCardIndex'']
         else [''burntCardIndex'', ''holeCardIndex''])
      else if a = ''yoink'' then [''cardIndex'', ''targetPlayerId'']
      else [])"

definition select_unset :: "select_el option \<Rightarrow> bool" where
  "select_unset el = (case el of None \<Rightarrow> True | Some e \<Rightarrow> sel_value e = Blank)"

definition required_unset_spec :: "string \<Rightarrow> form \<Rightarrow> bool" where
  "required_unset_spec tag f =
     (let a = toLowerCase tag in
      if a = ''peek'' then select_unset (peek_player f) \<or> select_unset (peek_card f)
      else if a = ''burn'' then list_all (\<lambda>r. \<not> radio_checked r) (burn_choice f)
      else if a = ''manifest'' \<or> a = ''trashman'' then
        list_all (\<lambda>b. \<not> selected b) (card_selection_btns f)
      else if a = ''yoink'' then
        list_all (\<lambda>b. \<not> (grid_id b = ''yoink-hole-grid'' \<and> selected b)) (card_selection_btns f) \<or>
        list_all (\<lambda>b. \<not> (grid_id b = ''yoink-board-grid'' \<and> selected b)) (card_selection_btns f)
      else True)"

text \<open>The invariant of the dialog: a hidden window holds no ability and no choices.\<close>

definition dialog_inv :: "client \<Rightarrow> bool" where
  "dialog_inv s =
     (if window_hidden s then currentAbility s = None \<and> currentChoices s = None else True)"

section \<open>Concrete pages and snapshots\<close>

definition blank_page :: client where
  "blank_page =
     \<lparr>gameId = ''g1'', gameState = None, playerToken = Some ''tok'', outbox = [],
      actions_log = [], connection_status = ('''', ''''), current_phase = ''-----'',
      current_pot = [S ''0''], current_bet_amount = [S ''0''],
      players_turn_list = TurnItems [], hole_cards = [], board_cards = [],
      ability_cards = AbilityMessage '''', currentAbility = None, currentChoices = None,
      window_hidden = True, selection_title = [], selection_message = [],
      selection_content = empty_form\<rparr>"

definition seat :: "string \<Rightarrow> bool \<Rightarrow> bool \<Rightarrow> bool \<Rightarrow> bool \<Rightarrow> player" where
  "seat n mine folded allin acted =
     \<lparr>Name = n, Balance = 100, IsMyTurn = mine, IsFolded = folded, IsAllIn = allin,
      HasActedThisRound = acted, CurrentBet = 0, HoleCards = [], Abilities = []\<rparr>"

definition demo_state :: game_state where
  "demo_state =
     \<lparr>CurrentPhase = ''Flop'', Pot = 30, CurrentPlayer = ''ann'', TurnManager = None,
      Players = Some [(seat ''ann'' True False False False)\<lparr>HoleCards := [''Ace of Spades'']\<rparr>,
                      seat ''bob'' False True True True],
      Board = [''3 of Hearts'']\<rparr>"

definition blank_prompt :: prompt where
  "blank_prompt =
     \<lparr>abilityUsed = [], prompt_message = [], instructions = [], step = None,
      availablePlayers = None, cardOptions = None, revealOptions = None,
      availableCards = None, drawnCard = None, availableBurntCards = None,
      currentHoleCards = None, availableHoleCards = None, chosenBurntCard = None,
      availableBoardCards = None\<rparr>"

definition pick :: "int \<Rightarrow> string \<Rightarrow> card_choice" where
  "pick i c = \<lparr>choice_index = i, choice_card = c, isDrawnCard = False\<rparr>"

definition blank_lobby_page :: lobby_client where
  "blank_lobby_page =
     \<lparr>socket_id = ''sock1'', sent = [], username = ''ann'', currentLobby = None,
      isHost = False, isReady = False, active_screen = ''create-lobby-screen'', console = [],
      error_slots = (\<lambda>_. \<lparr>err_text = [], err_show = False\<rparr>), timers = [],
      stored_token = None, location_href = ''/'', player_username = ''ann'',
      lobby_title = [], lobby_code_text = [], max_player_count = 0, player_count = 0,
      players_list = [], display_small_blind = 0, display_big_blind = 0,
      display_starting_funds = 0, edit_settings_display = ''none'',
      start_game_btn = \<lparr>disabled = True, start_text = ''Start Game'', start_display = ''none''\<rparr>,
      toggle_ready_btn = \<lparr>ready_text = ''Ready Up'', ready_primary = False\<rparr>\<rparr>"

definition member :: "string \<Rightarrow> bool \<Rightarrow> bool \<Rightarrow> lobby_player" where
  "member n host ready = \<lparr>p_username = n, p_socketId = n, p_isHost = host, p_isReady = ready\<rparr>"

definition table_of :: "lobby_player list \<Rightarrow> lobby" where
  "table_of ps =
     \<lparr>lobby_name = ''Table'', lobby_code = ''ABCDEF'', players = ps,
      config = \<lparr>smallBlind = 5, bigBlind = 10, startingFunds = 1000, maxPlayers = 8\<rparr>\<rparr>"

section \<open>Card strings\<close>

lemma parseCard_examples:
  "parseCard ''Ace of Spades'' = Inr \<lparr>display = ''A'' @ sym_spades, isRed = False\<rparr> \<and>
   parseCard ''3 of Hearts'' = Inr \<lparr>display = ''3'' @ sym_hearts, isRed = True\<rparr> \<and>
   parseCard ''Joker'' = Inr \<lparr>display = ''Joker'', isRed = False\<rparr>"
  by code_simp

lemma parseCard_fallback:
  "length (split_of [] (toLowerCase str)) \<noteq> 2 \<Longrightarrow>
     parseCard str = Inr \<lparr>display = str, isRed = False\<rparr>"
  by (simp add: parseCard_def)

lemma parseCard_throws_iff:
  "(parseCard str = Inl TypeError) = (\<exists>rank. split_of [] (toLowerCase str) = [rank, []])"
proof (cases "split_of [] (toLowerCase str)")
  case Nil
  then show ?thesis by (simp add: parseCard_def)
next
  case (Cons rank r)
  show ?thesis
  proof (cases r)
    case Nil
    then show ?thesis using Cons by (simp add: parseCard_def)
  next
    case (Cons suit r2)
    note two = this
    show ?thesis
    proof (cases r2)
      case Nil
      show ?thesis
      proof (cases suit)
        case Nil
        then show ?thesis
          using \<open>split_of [] (toLowerCase str) = rank # r\<close> two \<open>r2 = []\<close>
          by (simp add: parseCard_def)
      next
        case (Cons c cs)
        then show ?thesis
          using \<open>split_of [] (toLowerCase str) = rank # r\<close> two \<open>r2 = []\<close>
          by (simp add: parseCard_def Let_def)
      qed
    next
      case (Cons x xs)
      then show ?thesis
        using \<open>split_of [] (toLowerCase str) = rank # r\<close> two
        by (simp add: parseCard_def)
    qed
  qed
qed

text \<open>
  C2. \<open>parseCard\<close> is meant to return a display and a colour for every string. It does
  for the three strings the specification lists and for every string that does not split
  into two pieces, and it throws for no string with a non-empty suit (the three lemmas
  above), but a string that ends in the separator, such as
  \<open>Ace of \<close> followed by nothing, has the empty suit: none of the four suit names matches,
  the default branch reads the first character of the empty string, and the call throws.
\<close>

theorem parseCard_empty_suit_throws: "parseCard ''Ace of '' = Inl TypeError"
  by code_simp

section \<open>Turn status\<close>

text \<open>
  C7. For every seat of a snapshot the turn list gets one item, whose status text and
  status class are decided by the first flag set in the order my-turn, folded, all-in,
  acted-this-round, with to-act when none is set. A seat that is folded and all-in is
  never shown as all-in; it is shown as folded unless it also has the turn, which comes
  first in the order.
\<close>

theorem turn_status_priority:
  assumes "gameState s = Some gs" and "Players gs = Some ps"
  shows "players_turn_list (updateTurnIndicator s) = TurnItems (map playerItem ps) \<and>
         (\<forall>p \<in> set ps.
           turn_status (playerItem p) =
             first_match_spec
               [(IsMyTurn p, ''Current Turn''), (IsFolded p, ''Folded''), (IsAllIn p, ''All In''),
                (HasActedThisRound p, ''Waiting'')] ''To Act'' \<and>
           item_classes (playerItem p) =
             ''player-turn-item'' #
             first_match_spec
               [(IsMyTurn p, [''current-turn'']), (IsFolded p, [''folded'']),
                (IsAllIn p, [''all-in'']), (HasActedThisRound p, [''acted''])] [] \<and>
           (IsFolded p \<and> IsAllIn p \<longrightarrow>
              turn_status (playerItem p) \<noteq> ''All In'' \<and>
              item_classes (playerItem p) \<noteq> [''player-turn-item'', ''all-in'']) \<and>
           (IsFolded p \<and> IsAllIn p \<and> \<not> IsMyTurn p \<longrightarrow>
              turn_status (playerItem p) = ''Folded'' \<and>
              item_classes (playerItem p) = [''player-turn-item'', ''folded'']))"
  using assms
  by (simp add: updateTurnIndicator_def playerItem_def statusText_def statusClass_def)

theorem turn_status_priority_witness:
  "gameState (blank_page\<lparr>gameState := Some demo_state\<rparr>) = Some demo_state \<and>
   Players demo_state =
     Some [(seat ''ann'' True False False False)\<lparr>HoleCards := [''Ace of Spades'']\<rparr>,
           seat ''bob'' False True True True] \<and>
   IsFolded (seat ''bob'' False True True True) \<and> IsAllIn (seat ''bob'' False True True True) \<and>
   turn_status (playerItem (seat ''bob'' False True True True)) = ''Folded'' \<and>
   players_turn_list (updateTurnIndicator (blank_page\<lparr>gameState := Some demo_state\<rparr>)) =
     TurnItems
       (map playerItem
          [(seat ''ann'' True False False False)\<lparr>HoleCards := [''Ace of Spades'']\<rparr>,
           seat ''bob'' False True True True])"
proof -
  have h1: "gameState (blank_page\<lparr>gameState := Some demo_state\<rparr>) = Some demo_state"
    by simp
  have h2: "Players demo_state =
     Some [(seat ''ann'' True False False False)\<lparr>HoleCards := [''Ace of Spades'']\<rparr>,
           seat ''bob'' False True True True]"
    by (simp add: demo_state_def)
  show ?thesis
    using h1 h2 turn_status_priority [OF h1 h2]
    by (simp add: seat_def)
qed

section \<open>Leaving the ability dialog\<close>

text \<open>
  C8. The Cancel button sends exactly one \<open>cancel_ability\<close> message, carrying the game
  id, and closes the dialog. The dismiss control and a click outside the window close it
  too, and the dialog then looks the same as after Cancel, but they send nothing.
\<close>

theorem cancel_sends_dismiss_is_silent:
  "outbox (snd (on_click ClickCancel s)) =
     outbox s @ [\<lparr>event = ''cancel_ability'', payload = [(''gameId'', JStr (gameId s))]\<rparr>] \<and>
   window_hidden (snd (on_click ClickCancel s)) \<and>
   outbox (snd (on_click ClickClose s)) = outbox s \<and>
   window_hidden (snd (on_click ClickClose s)) \<and>
   outbox (snd (on_click (ClickOverlay True) s)) = outbox s \<and>
   window_hidden (snd (on_click (ClickOverlay True) s)) \<and>
   dialog_view (snd (on_click ClickClose s)) = dialog_view (snd (on_click ClickCancel s)) \<and>
   dialog_view (snd (on_click (ClickOverlay True) s)) = dialog_view (snd (on_click ClickCancel s)) \<and>
   fst (on_click ClickCancel s) = None \<and> fst (on_click ClickClose s) = None \<and>
   fst (on_click (ClickOverlay True) s) = None"
  by (simp add: cancelAbility_def hideSelectionWindow_def emit_def addActionLog_def
      dialog_view_def Let_def)

section \<open>What the handlers leave alone\<close>

lemma addActionLog_keeps [simp]:
  "playerToken (addActionLog m t s) = playerToken s"
  "outbox (addActionLog m t s) = outbox s"
  "gameState (addActionLog m t s) = gameState s"
  "gameId (addActionLog m t s) = gameId s"
  "currentAbility (addActionLog m t s) = currentAbility s"
  "currentChoices (addActionLog m t s) = currentChoices s"
  "window_hidden (addActionLog m t s) = window_hidden s"
  "selection_content (addActionLog m t s) = selection_content s"
  "regions (addActionLog m t s) = regions s"
  "dialog_view (addActionLog m t s) = dialog_view s"
  by (simp_all add: addActionLog_def Let_def regions_def dialog_view_def)

lemma emit_keeps [simp]:
  "playerToken (emit ev d s) = playerToken s"
  "outbox (emit ev d s) = outbox s @ [\<lparr>event = ev, payload = d\<rparr>]"
  "gameState (emit ev d s) = gameState s"
  "gameId (emit ev d s) = gameId s"
  "currentAbility (emit ev d s) = currentAbility s"
  "currentChoices (emit ev d s) = currentChoices s"
  "window_hidden (emit ev d s) = window_hidden s"
  "selection_content (emit ev d s) = selection_content s"
  "regions (emit ev d s) = regions s"
  by (simp_all add: emit_def regions_def)

lemma hideSelectionWindow_keeps [simp]:
  "playerToken (hideSelectionWindow s) = playerToken s"
  "outbox (hideSelectionWindow s) = outbox s"
  "gameState (hideSelectionWindow s) = gameState s"
  "gameId (hideSelectionWindow s) = gameId s"
  "currentAbility (hideSelectionWindow s) = None"
  "currentChoices (hideSelectionWindow s) = None"
  "window_hidden (hideSelectionWindow s) = True"
  "selection_content (hideSelectionWindow s) = selection_content s"
  "regions (hideSelectionWindow s) = regions s"
  by (simp_all add: hideSelectionWindow_def regions_def)

lemma showAbilitySelection_keeps [simp]:
  "playerToken (showAbilitySelection d s) = playerToken s"
  "outbox (showAbilitySelection d s) = outbox s"
  "gameState (showAbilitySelection d s) = gameState s"
  "gameId (showAbilitySelection d s) = gameId s"
  "currentAbility (showAbilitySelection d s) = Some (abilityUsed d)"
  "currentChoices (showAbilitySelection d s) = Some d"
  "window_hidden (showAbilitySelection d s) = False"
  by (simp_all add: showAbilitySelection_def Let_def)

lemma showAbilitySelection_regions [simp]: "regions (showAbilitySelection d s) = regions s"
proof -
  have "\<And>x f. regions (x\<lparr>currentAbility := Some (abilityUsed d), currentChoices := Some d,
          selection_title := getAbilityTitle d, selection_message := f,
          selection_content := c, window_hidden := False\<rparr>) = regions x" for c
    by (simp add: regions_def)
  then show ?thesis
    by (simp add: showAbilitySelection_def Let_def)
qed

lemma updateTurnIndicator_keeps [simp]:
  "playerToken (updateTurnIndicator s) = playerToken s"
  "outbox (updateTurnIndicator s) = outbox s"
  "gameState (updateTurnIndicator s) = gameState s"
  "gameId (updateTurnIndicator s) = gameId s"
  "currentAbility (updateTurnIndicator s) = currentAbility s"
  "currentChoices (updateTurnIndicator s) = currentChoices s"
  "window_hidden (updateTurnIndicator s) = window_hidden s"
  "selection_content (updateTurnIndicator s) = selection_content s"
  by (simp_all add: updateTurnIndicator_def split: option.splits)

lemma updateHoleCards_keeps [simp]:
  "playerToken (snd (updateHoleCards s)) = playerToken s"
  "outbox (snd (updateHoleCards s)) = outbox s"
  "gameState (snd (updateHoleCards s)) = gameState s"
  "gameId (snd (updateHoleCards s)) = gameId s"
  "currentAbility (snd (updateHoleCards s)) = currentAbility s"
  "currentChoices (snd (updateHoleCards s)) = currentChoices s"
  "window_hidden (snd (updateHoleCards s)) = window_hidden s"
  "selection_content (snd (updateHoleCards s)) = selection_content s"
  by (simp_all add: updateHoleCards_def split: option.splits prod.splits)

lemma updateBoardCards_keeps [simp]:
  "playerToken (snd (updateBoardCards g s)) = playerToken s"
  "outbox (snd (updateBoardCards g s)) = outbox s"
  "gameState (snd (updateBoardCards g s)) = gameState s"
  "gameId (snd (updateBoardCards g s)) = gameId s"
  "currentAbility (snd (updateBoardCards g s)) = currentAbility s"
  "currentChoices (snd (updateBoardCards g s)) = currentChoices s"
  "window_hidden (snd (updateBoardCards g s)) = window_hidden s"
  "selection_content (snd (updateBoardCards g s)) = selection_content s"
  by (simp_all add: updateBoardCards_def split: option.splits prod.splits)

lemma updateAbilities_keeps [simp]:
  "playerToken (updateAbilities s) = playerToken s"
  "outbox (updateAbilities s) = outbox s"
  "gameState (updateAbilities s) = gameState s"
  "gameId (updateAbilities s) = gameId s"
  "currentAbility (updateAbilities s) = currentAbility s"
  "currentChoices (updateAbilities s) = currentChoices s"
  "window_hidden (updateAbilities s) = window_hidden s"
  "selection_content (updateAbilities s) = selection_content s"
  by (simp_all add: updateAbilities_def split: option.splits)

lemma banner_keeps [simp]:
  "playerToken (banner g s) = playerToken s"
  "outbox (banner g s) = outbox s"
  "gameState (banner g s) = gameState s"
  "gameId (banner g s) = gameId s"
  "currentAbility (banner g s) = currentAbility s"
  "currentChoices (banner g s) = currentChoices s"
  "window_hidden (banner g s) = window_hidden s"
  "selection_content (banner g s) = selection_content s"
  by (simp_all add: banner_def)

lemma updateGameDisplay_steps:
  "gameState s = Some gs \<Longrightarrow>
   updateGameDisplay s =
     (case updateHoleCards (updateTurnIndicator (banner gs s)) of
        (Some e, s3) \<Rightarrow> (Some e, s3)
      | (None, s3) \<Rightarrow>
          (case updateBoardCards gs s3 of
             (Some e, s4) \<Rightarrow> (Some e, s4)
           | (None, s4) \<Rightarrow>
               (None,
                addActionLog
                  [S ''Phase: '', S (CurrentPhase gs), S '', Pot: '', N (Pot gs),
                   S '', Current Player: '',
                   S (if CurrentPlayer gs = [] then ''None'' else CurrentPlayer gs)]
                  ''system'' (updateAbilities s4))))"
  by (simp add: updateGameDisplay_def banner_def Let_def)

lemma updateGameDisplay_none: "gameState s = None \<Longrightarrow> updateGameDisplay s = (None, s)"
  by (simp add: updateGameDisplay_def)

lemma updateGameDisplay_keeps [simp]:
  "playerToken (snd (updateGameDisplay s)) = playerToken s"
  "outbox (snd (updateGameDisplay s)) = outbox s"
  "gameState (snd (updateGameDisplay s)) = gameState s"
  "gameId (snd (updateGameDisplay s)) = gameId s"
  "currentAbility (snd (updateGameDisplay s)) = currentAbility s"
  "currentChoices (snd (updateGameDisplay s)) = currentChoices s"
  "window_hidden (snd (updateGameDisplay s)) = window_hidden s"
  "selection_content (snd (updateGameDisplay s)) = selection_content s"
proof -
  have *: "\<And>f :: client \<Rightarrow> 'a.
      (\<And>m t x. f (addActionLog m t x) = f x) \<Longrightarrow> (\<And>x. f (updateAbilities x) = f x) \<Longrightarrow>
      (\<And>g x. f (snd (updateBoardCards g x)) = f x) \<Longrightarrow> (\<And>x. f (snd (updateHoleCards x)) = f x) \<Longrightarrow>
      (\<And>x. f (updateTurnIndicator x) = f x) \<Longrightarrow> (\<And>g x. f (banner g x) = f x) \<Longrightarrow>
      f (snd (updateGameDisplay s)) = f s"
  proof -
    fix f :: "client \<Rightarrow> 'a"
    assume a: "\<And>m t x. f (addActionLog m t x) = f x" "\<And>x. f (updateAbilities x) = f x"
      "\<And>g x. f (snd (updateBoardCards g x)) = f x" "\<And>x. f (snd (updateHoleCards x)) = f x"
      "\<And>x. f (updateTurnIndicator x) = f x" "\<And>g x. f (banner g x) = f x"
    show "f (snd (updateGameDisplay s)) = f s"
    proof (cases "gameState s")
      case None
      then show ?thesis by (simp add: updateGameDisplay_none)
    next
      case (Some gs)
      obtain e3 s3 where h3: "updateHoleCards (updateTurnIndicator (banner gs s)) = (e3, s3)"
        by (cases "updateHoleCards (updateTurnIndicator (banner gs s))")
      obtain e4 s4 where h4: "updateBoardCards gs s3 = (e4, s4)"
        by (cases "updateBoardCards gs s3")
      have f3: "f s3 = f s"
        using a(4) [of "updateTurnIndicator (banner gs s)"] a(5) [of "banner gs s"] a(6) [of gs s] h3
        by simp
      have f4: "f s4 = f s"
        using a(3) [of gs s3] h4 f3 by simp
      show ?thesis
        using Some h3 h4 f3 f4 a(1) a(2)
        by (simp add: updateGameDisplay_steps split: option.splits)
    qed
  qed
  show "playerToken (snd (updateGameDisplay s)) = playerToken s" by (rule *) simp_all
  show "outbox (snd (updateGameDisplay s)) = outbox s" by (rule *) simp_all
  show "gameState (snd (updateGameDisplay s)) = gameState s" by (rule *) simp_all
  show "gameId (snd (updateGameDisplay s)) = gameId s" by (rule *) simp_all
  show "currentAbility (snd (updateGameDisplay s)) = currentAbility s" by (rule *) simp_all
  show "currentChoices (snd (updateGameDisplay s)) = currentChoices s" by (rule *) simp_all
  show "window_hidden (snd (updateGameDisplay s)) = window_hidden s" by (rule *) simp_all
  show "selection_content (snd (updateGameDisplay s)) = selection_content s" by (rule *) simp_all
qed

section \<open>State pushes\<close>

lemma updateTurnIndicator_players:
  "gameState y = Some gs \<Longrightarrow> Players gs = Some ps \<Longrightarrow>
   updateTurnIndicator y = y\<lparr>players_turn_list := TurnItems (map playerItem ps)\<rparr>"
  by (simp add: updateTurnIndicator_def)

lemma updateHoleCards_players:
  assumes "Players gs = Some ps"
  shows "\<exists>e h. \<forall>y. gameState y = Some gs \<longrightarrow> updateHoleCards y = (e, y\<lparr>hole_cards := h\<rparr>)"
proof (cases "find (\<lambda>p. HoleCards p \<noteq> []) ps")
  case None
  then have "\<forall>y. gameState y = Some gs \<longrightarrow>
      updateHoleCards y =
        (None, y\<lparr>hole_cards :=
                   [\<lparr>className = ''card-placeholder'', textContent = ''Card 1''\<rparr>,
                    \<lparr>className = ''card-placeholder'', textContent = ''Card 2''\<rparr>]\<rparr>)"
    using assms by (simp add: updateHoleCards_def)
  then show ?thesis by blast
next
  case (Some p)
  obtain e h where "appendCards (HoleCards p) [] = (e, h)"
    by (cases "appendCards (HoleCards p) []")
  then have "\<forall>y. gameState y = Some gs \<longrightarrow> updateHoleCards y = (e, y\<lparr>hole_cards := h\<rparr>)"
    using assms Some by (simp add: updateHoleCards_def)
  then show ?thesis by blast
qed

lemma updateBoardCards_board:
  "\<exists>e b. \<forall>y. updateBoardCards gs y = (e, y\<lparr>board_cards := b\<rparr>)"
proof (cases "Board gs = []")
  case True
  then have "\<forall>y. updateBoardCards gs y = (None, y\<lparr>board_cards := map hidden_card [0..<5]\<rparr>)"
    by (simp add: updateBoardCards_def)
  then show ?thesis by blast
next
  case False
  obtain e h where eh: "appendCards (Board gs) [] = (e, h)"
    by (cases "appendCards (Board gs) []")
  show ?thesis
  proof (cases e)
    case None
    then have "\<forall>y. updateBoardCards gs y =
        (None, y\<lparr>board_cards := h @ map hidden_card [length (Board gs)..<5]\<rparr>)"
      using False eh by (simp add: updateBoardCards_def)
    then show ?thesis by blast
  next
    case (Some x)
    then have "\<forall>y. updateBoardCards gs y = (Some x, y\<lparr>board_cards := h\<rparr>)"
      using False eh by (simp add: updateBoardCards_def)
    then show ?thesis by blast
  qed
qed

lemma updateAbilities_players:
  assumes "Players gs = Some ps"
  shows "\<exists>a. \<forall>y. gameState y = Some gs \<longrightarrow> updateAbilities y = y\<lparr>ability_cards := a\<rparr>"
proof (cases "find (\<lambda>p. Abilities p \<noteq> []) ps")
  case None
  then have "\<forall>y. gameState y = Some gs \<longrightarrow>
      updateAbilities y = y\<lparr>ability_cards := AbilityMessage ''No abilities available''\<rparr>"
    using assms by (simp add: updateAbilities_def)
  then show ?thesis by blast
next
  case (Some p)
  then have "\<forall>y. gameState y = Some gs \<longrightarrow>
      updateAbilities y = y\<lparr>ability_cards := AbilityButtons (map abilityEl (Abilities p))\<rparr>"
    using assms by (simp add: updateAbilities_def)
  then show ?thesis by blast
qed

lemma updateGameDisplay_from_snapshot:
  assumes s: "gameState s = Some gs" and s': "gameState s' = Some gs"
    and ps: "Players gs = Some ps"
  shows "fst (updateGameDisplay s) = fst (updateGameDisplay s') \<and>
         (fst (updateGameDisplay s) = None \<longrightarrow>
            regions (snd (updateGameDisplay s)) = regions (snd (updateGameDisplay s')))"
proof -
  obtain e h where H: "\<And>y. gameState y = Some gs \<Longrightarrow> updateHoleCards y = (e, y\<lparr>hole_cards := h\<rparr>)"
    using updateHoleCards_players [OF ps] by blast
  obtain eb b where B: "\<And>y. updateBoardCards gs y = (eb, y\<lparr>board_cards := b\<rparr>)"
    using updateBoardCards_board [of gs] by blast
  obtain a where A: "\<And>y. gameState y = Some gs \<Longrightarrow> updateAbilities y = y\<lparr>ability_cards := a\<rparr>"
    using updateAbilities_players [OF ps] by blast
  have D: "fst (updateGameDisplay y) = (case e of Some x \<Rightarrow> Some x | None \<Rightarrow> eb) \<and>
           (e = None \<and> eb = None \<longrightarrow>
              regions (snd (updateGameDisplay y)) =
                (if CurrentPhase gs = [] then ''-----'' else CurrentPhase gs,
                 if Pot gs = 0 then [S ''0''] else [N (Pot gs)],
                 [N (case TurnManager gs of None \<Rightarrow> 0 | Some tm \<Rightarrow> tm_CurrentBet tm)],
                 TurnItems (map playerItem ps), h, b, a))"
    if y: "gameState y = Some gs" for y
  proof -
    define y1 where "y1 = updateTurnIndicator (banner gs y)"
    define y2 where "y2 = y1\<lparr>hole_cards := h\<rparr>"
    define y3 where "y3 = y2\<lparr>board_cards := b\<rparr>"
    define y4 where "y4 = y3\<lparr>ability_cards := a\<rparr>"
    have g1: "gameState y1 = Some gs"
      using y by (simp add: y1_def)
    have g3: "gameState y3 = Some gs"
      using g1 by (simp add: y2_def y3_def)
    have hc: "updateHoleCards y1 = (e, y2)"
      using H [OF g1] by (simp add: y2_def)
    have bc: "updateBoardCards gs y2 = (eb, y3)"
      using B [of y2] by (simp add: y3_def)
    have ab: "updateAbilities y3 = y4"
      using A [OF g3] by (simp add: y4_def)
    have run: "updateGameDisplay y =
        (case e of
           Some x \<Rightarrow> (Some x, y2)
         | None \<Rightarrow>
             (case eb of
                Some x \<Rightarrow> (Some x, y3)
              | None \<Rightarrow>
                  (None,
                   addActionLog
                     [S ''Phase: '', S (CurrentPhase gs), S '', Pot: '', N (Pot gs),
                      S '', Current Player: '',
                      S (if CurrentPlayer gs = [] then ''None'' else CurrentPlayer gs)]
                     ''system'' y4)))"
      using y hc bc ab
      by (simp add: updateGameDisplay_steps y1_def [symmetric] split: option.splits)
    have y1: "y1 = (banner gs y)\<lparr>players_turn_list := TurnItems (map playerItem ps)\<rparr>"
      using y ps by (simp add: y1_def updateTurnIndicator_players)
    have reg: "regions y4 =
        (if CurrentPhase gs = [] then ''-----'' else CurrentPhase gs,
         if Pot gs = 0 then [S ''0''] else [N (Pot gs)],
         [N (case TurnManager gs of None \<Rightarrow> 0 | Some tm \<Rightarrow> tm_CurrentBet tm)],
         TurnItems (map playerItem ps), h, b, a)"
      by (simp add: regions_def y4_def y3_def y2_def y1 banner_def)
    show ?thesis
      using run reg by (simp split: option.splits)
  qed
  show ?thesis
    using D [OF s] D [OF s'] by (auto split: option.splits)
qed

text \<open>
  C1, as the code has it. A \<open>game_started\<close>, a \<open>game_state_update\<close> and a
  \<open>player_action_result\<close> that carries a game state are handled alike: the held snapshot
  becomes the pushed state and, when that state has a player list and no card string
  makes the rendering throw, all five regions come out as a function of the pushed state
  alone, whatever the page showed before. A \<open>player_action_result\<close> without a game state
  and every \<open>ability_result\<close> write a log line and leave the held snapshot and the five
  regions as they were.
\<close>

theorem state_push_refreshes:
  assumes "Players gs = Some ps"
    and "ev = GameStarted (Some gs) \<or> ev = GameStateUpdate (Some gs) \<or>
         ev = PlayerActionResult pa (Some gs)"
    and "fst (on_event ev s) = None"
  shows "gameState (snd (on_event ev s)) = Some gs \<and>
         (\<forall>s'. regions (snd (on_event ev s)) =
                regions (snd (on_event (GameStateUpdate (Some gs)) s'))) \<and>
         gameState (snd (on_event (PlayerActionResult pa None) s)) = gameState s \<and>
         regions (snd (on_event (PlayerActionResult pa None) s)) = regions s \<and>
         gameState (snd (on_event (AbilityResult msg) s)) = gameState s \<and>
         regions (snd (on_event (AbilityResult msg) s)) = regions s"
proof -
  obtain s1 where s1: "on_event ev s = updateGameDisplay s1" "gameState s1 = Some gs"
    using assms(2) by (auto simp: Let_def)
  have snap: "gameState (snd (on_event ev s)) = Some gs"
    using s1 by simp
  have fresh: "regions (snd (on_event ev s)) =
               regions (snd (on_event (GameStateUpdate (Some gs)) s'))" for s'
    using updateGameDisplay_from_snapshot [of s1 gs "s'\<lparr>gameState := Some gs\<rparr>" ps]
      s1 assms(1) assms(3)
    by simp
  show ?thesis
    using snap fresh by (simp add: Let_def)
qed

theorem state_push_refreshes_witness:
  "Players demo_state =
     Some [(seat ''ann'' True False False False)\<lparr>HoleCards := [''Ace of Spades'']\<rparr>,
           seat ''bob'' False True True True] \<and>
   fst (on_event (GameStarted (Some demo_state)) blank_page) = None \<and>
   gameState (snd (on_event (GameStarted (Some demo_state)) blank_page)) = Some demo_state \<and>
   regions (snd (on_event (GameStarted (Some demo_state)) blank_page)) =
     regions (snd (on_event (GameStateUpdate (Some demo_state))
                     (blank_page\<lparr>hole_cards := [\<lparr>className = ''x'', textContent = ''y''\<rparr>]\<rparr>)))"
proof -
  have h1: "Players demo_state =
     Some [(seat ''ann'' True False False False)\<lparr>HoleCards := [''Ace of Spades'']\<rparr>,
           seat ''bob'' False True True True]"
    by (simp add: demo_state_def)
  have h2: "GameStarted (Some demo_state) = GameStarted (Some demo_state) \<or>
            GameStarted (Some demo_state) = GameStateUpdate (Some demo_state) \<or>
            GameStarted (Some demo_state) = PlayerActionResult pa (Some demo_state)" for pa
    by simp
  have h3: "fst (on_event (GameStarted (Some demo_state)) blank_page) = None"
    by code_simp
  show ?thesis
    using h1 h3 state_push_refreshes [OF h1 h2 h3]
    by simp
qed

text \<open>
  C1 as stated fails for \<open>ability_result\<close>: on a fresh page the handler leaves the
  snapshot absent and the regions untouched where a \<open>game_state_update\<close> sets both, and
  after a state has been shown it does not run the display update, whose log line is
  missing.
\<close>

theorem ability_result_is_no_refresh:
  "gameState (snd (on_event (AbilityResult ''done'') blank_page)) = None \<and>
   regions (snd (on_event (AbilityResult ''done'') blank_page)) = regions blank_page \<and>
   gameState (snd (on_event (GameStateUpdate (Some demo_state)) blank_page)) = Some demo_state \<and>
   regions (snd (on_event (GameStateUpdate (Some demo_state)) blank_page)) \<noteq> regions blank_page \<and>
   snd (on_event (AbilityResult ''done'')
          (snd (on_event (GameStateUpdate (Some demo_state)) blank_page))) \<noteq>
   snd (updateGameDisplay
          (addActionLog [S ''done''] ''player-action''
             (snd (on_event (GameStateUpdate (Some demo_state)) blank_page))))"
  by code_simp

text \<open>
  When a card string makes \<open>parseCard\<close> throw, the refresh stops where it is: here the
  snapshot is replaced and the banner, turn list and hole cards are written, the board is
  left empty, and the ability list and the closing log line are not reached.
\<close>

lemma throwing_card_stops_refresh:
  "fst (on_event (GameStateUpdate (Some (demo_state\<lparr>Board := [''Ace of '']\<rparr>))) blank_page) =
     Some TypeError \<and>
   gameState (snd (on_event (GameStateUpdate (Some (demo_state\<lparr>Board := [''Ace of '']\<rparr>))) blank_page)) =
     Some (demo_state\<lparr>Board := [''Ace of '']\<rparr>) \<and>
   board_cards (snd (on_event (GameStateUpdate (Some (demo_state\<lparr>Board := [''Ace of '']\<rparr>))) blank_page)) = [] \<and>
   ability_cards (snd (on_event (GameStateUpdate (Some (demo_state\<lparr>Board := [''Ace of '']\<rparr>))) blank_page)) =
     ability_cards blank_page \<and>
   actions_log (snd (on_event (GameStateUpdate (Some (demo_state\<lparr>Board := [''Ace of '']\<rparr>))) blank_page)) = []"
  by code_simp

section \<open>Joining the game room\<close>

lemma no_join_in_new [simp]: "\<exists>new. outbox s = outbox s @ new \<and> (\<forall>m\<in>set new. event m \<noteq> ''join_game'')"
  by (rule exI [of _ "[]"]) simp

lemma confirmSelection_token: "playerToken (snd (confirmSelection s)) = playerToken s"
  by (simp add: confirmSelection_def Let_def split: option.splits)

lemma confirmSelection_new:
  "\<exists>new. outbox (snd (confirmSelection s)) = outbox s @ new \<and>
         (\<forall>m\<in>set new. event m \<noteq> ''join_game'')"
  by (simp add: confirmSelection_def Let_def split: option.splits)

lemma clickCardBtn_keeps [simp]:
  "playerToken (clickCardBtn i s) = playerToken s"
  "outbox (clickCardBtn i s) = outbox s"
  "gameId (clickCardBtn i s) = gameId s"
  "currentAbility (clickCardBtn i s) = currentAbility s"
  "currentChoices (clickCardBtn i s) = currentChoices s"
  "window_hidden (clickCardBtn i s) = window_hidden s"
  by (simp_all add: clickCardBtn_def Let_def)

lemma on_click_token: "playerToken (snd (on_click a s)) = playerToken s"
  by (cases a) (simp_all add: confirmSelection_token cancelAbility_def useAbility_def)

lemma on_event_token:
  "(\<forall>a b. e \<noteq> GameRoomJoined a b) \<Longrightarrow> playerToken (snd (on_event e s)) = playerToken s"
  by (cases e) (simp_all add: Let_def split: option.splits)

lemma handle_new:
  "\<exists>new. outbox (snd (handle i s)) = outbox s @ new \<and> (\<forall>m\<in>set new. event m \<noteq> ''join_game'')"
proof (cases i)
  case (Recv e)
  then show ?thesis
    by (cases e) (simp_all add: Let_def split: option.splits)
next
  case (User a)
  then show ?thesis
    by (cases a) (simp_all add: confirmSelection_new cancelAbility_def useAbility_def)
qed

text \<open>
  C3. \<open>joinGame\<close> sends \<open>join_game\<close>, with the game id and the token, exactly when a
  non-empty token is stored; otherwise it writes its two log lines and does nothing
  else, and nothing the page handles afterwards sends \<open>join_game\<close>. Sending leaves the
  stored token in place; the \<open>game_room_joined\<close> handler removes it, and no other
  message and no user action touches it.
\<close>

theorem join_needs_token:
  "(outbox (joinGame s) \<noteq> outbox s \<longleftrightarrow> (\<exists>tok. playerToken s = Some tok \<and> tok \<noteq> [])) \<and>
   (\<forall>tok. playerToken s = Some tok \<and> tok \<noteq> [] \<longrightarrow>
      outbox (joinGame s) =
        outbox s @ [\<lparr>event = ''join_game'',
                     payload = [(''gameId'', JStr (gameId s)), (''playerToken'', JStr tok)]\<rparr>]) \<and>
   (playerToken s = None \<or> playerToken s = Some [] \<longrightarrow>
      joinGame s =
        addActionLog [S ''Error: No authentication token found''] ''system''
          (addActionLog [S ''Joining game room...''] ''system'' s)) \<and>
   (\<forall>i. \<exists>new. outbox (snd (handle i s)) = outbox s @ new \<and>
               (\<forall>m\<in>set new. event m \<noteq> ''join_game'')) \<and>
   playerToken (joinGame s) = playerToken s \<and>
   (\<forall>a b. playerToken (snd (on_event (GameRoomJoined a b) s)) = None) \<and>
   (\<forall>e. (\<forall>a b. e \<noteq> GameRoomJoined a b) \<longrightarrow> playerToken (snd (on_event e s)) = playerToken s) \<and>
   (\<forall>a. playerToken (snd (on_click a s)) = playerToken s)"
proof -
  have send: "outbox (joinGame s) \<noteq> outbox s \<longleftrightarrow> (\<exists>tok. playerToken s = Some tok \<and> tok \<noteq> [])"
    by (simp add: joinGame_def Let_def split: option.splits)
  have msg: "\<forall>tok. playerToken s = Some tok \<and> tok \<noteq> [] \<longrightarrow>
      outbox (joinGame s) =
        outbox s @ [\<lparr>event = ''join_game'',
                     payload = [(''gameId'', JStr (gameId s)), (''playerToken'', JStr tok)]\<rparr>]"
    by (simp add: joinGame_def Let_def)
  have halt: "playerToken s = None \<or> playerToken s = Some [] \<longrightarrow>
      joinGame s =
        addActionLog [S ''Error: No authentication token found''] ''system''
          (addActionLog [S ''Joining game room...''] ''system'' s)"
    by (auto simp: joinGame_def Let_def)
  have keep: "playerToken (joinGame s) = playerToken s"
    by (simp add: joinGame_def Let_def split: option.splits)
  show ?thesis
    using send msg halt keep handle_new on_event_token on_click_token
    by simp
qed

theorem join_needs_token_witness:
  "playerToken blank_page = Some ''tok'' \<and>
   outbox (joinGame blank_page) =
     [\<lparr>event = ''join_game'',
       payload = [(''gameId'', JStr ''g1''), (''playerToken'', JStr ''tok'')]\<rparr>] \<and>
   outbox (joinGame (blank_page\<lparr>playerToken := Some []\<rparr>)) = [] \<and>
   playerToken (snd (on_event (GameRoomJoined 1 2) (joinGame blank_page))) = None \<and>
   playerToken (snd (on_event (WaitingForPlayers ''wait'') (joinGame blank_page))) = Some ''tok''"
proof -
  have h1: "playerToken blank_page = Some ''tok''" and h2: "outbox blank_page = []"
    and h3: "gameId blank_page = ''g1''"
    by (simp_all add: blank_page_def)
  have h4: "playerToken (blank_page\<lparr>playerToken := Some []\<rparr>) = Some []"
    by simp
  show ?thesis
    using h1 h2 h3 join_needs_token [of blank_page]
      join_needs_token [of "blank_page\<lparr>playerToken := Some []\<rparr>"]
      join_needs_token [of "joinGame blank_page"]
    by (auto simp: blank_page_def)
qed

section \<open>Lobby: the start button\<close>

lemma showMessage_keeps [simp]:
  "currentLobby (showMessage m t s) = currentLobby s"
  "isHost (showMessage m t s) = isHost s"
  "start_game_btn (showMessage m t s) = start_game_btn s"
  "sent (showMessage m t s) = sent s"
  by (simp_all add: showMessage_def)

lemma updateReadyButton_keeps [simp]:
  "currentLobby (updateReadyButton s) = currentLobby s"
  "isHost (updateReadyButton s) = isHost s"
  "start_game_btn (updateReadyButton s) = start_game_btn s"
  "socket_id (updateReadyButton s) = socket_id s"
  by (simp_all add: updateReadyButton_def)

lemma eachPlayer_keeps [simp]:
  "currentLobby (eachPlayer ps s) = currentLobby s \<and> isHost (eachPlayer ps s) = isHost s \<and>
   start_game_btn (eachPlayer ps s) = start_game_btn s"
  by (induction ps arbitrary: s) (simp_all add: Let_def)

lemma updatePlayersDisplay_keeps [simp]:
  "currentLobby (updatePlayersDisplay s) = currentLobby s"
  "isHost (updatePlayersDisplay s) = isHost s"
  "start_game_btn (updatePlayersDisplay s) = start_game_btn s"
  by (simp_all add: updatePlayersDisplay_def split: option.splits)

lemma updateStartButton_host:
  "isHost s \<Longrightarrow> currentLobby s = Some l \<Longrightarrow>
   currentLobby (updateStartButton s) = Some l \<and>
   (\<not> disabled (start_game_btn (updateStartButton s))) =
     (2 \<le> length (players l) \<and> list_all p_isReady (players l)) \<and>
   start_text (start_game_btn (updateStartButton s)) =
     (if 2 \<le> length (players l) \<and> list_all p_isReady (players l) then ''Start Game''
      else if length (players l) < 2 then ''Need More Players''
      else ''Waiting for Players'')"
  by (simp add: updateStartButton_def Let_def)

lemma updateStartButton_guest: "\<not> isHost s \<Longrightarrow> updateStartButton s = s"
  by (simp add: updateStartButton_def)

lemma showLobbyRoom_host:
  assumes "isHost s" and "currentLobby s = Some l"
  shows "\<exists>s1. showLobbyRoom s = updateStartButton s1 \<and> isHost s1 \<and> currentLobby s1 = Some l"
proof -
  let ?s1 = "updateHostControls
          (updateSettingsDisplay
             (updatePlayersDisplay (updateLobbyDisplay (showScreen ''lobby-room-screen'' s))))"
  have "isHost ?s1 \<and> currentLobby ?s1 = Some l"
    using assms
    by (simp add: updateHostControls_def updateSettingsDisplay_def updateLobbyDisplay_def
        showScreen_def)
  then show ?thesis
    unfolding showLobbyRoom_def by blast
qed

lemma showLobbyRoom_guest:
  assumes "\<not> isHost s"
  shows "disabled (start_game_btn (showLobbyRoom s)) = disabled (start_game_btn s) \<and>
         start_text (start_game_btn (showLobbyRoom s)) = start_text (start_game_btn s)"
proof -
  let ?s1 = "updateHostControls
          (updateSettingsDisplay
             (updatePlayersDisplay (updateLobbyDisplay (showScreen ''lobby-room-screen'' s))))"
  have g: "\<not> isHost ?s1"
    using assms
    by (simp add: updateHostControls_def updateSettingsDisplay_def updateLobbyDisplay_def
        showScreen_def split: option.splits)
  have b: "disabled (start_game_btn ?s1) = disabled (start_game_btn s) \<and>
           start_text (start_game_btn ?s1) = start_text (start_game_btn s)"
    using assms
    by (simp add: updateHostControls_def updateSettingsDisplay_def updateLobbyDisplay_def
        showScreen_def split: option.splits)
  show ?thesis
    using b updateStartButton_guest [OF g] by (simp add: showLobbyRoom_def)
qed

lemma guest_page_button:
  assumes "\<not> isHost s" and "\<And>l m. ev \<noteq> LobbyCreated l m"
  shows "disabled (start_game_btn (on_lobby_event ev s)) = disabled (start_game_btn s) \<and>
         start_text (start_game_btn (on_lobby_event ev s)) = start_text (start_game_btn s)"
proof (cases ev)
  case (LobbyCreated l m)
  then show ?thesis using assms(2) by simp
next
  case (LobbyJoined l u m)
  then show ?thesis
    using showLobbyRoom_guest
      [of "showMessage m ''success'' (s\<lparr>currentLobby := Some l, isHost := False, username := u\<rparr>)"]
    by simp
next
  case (LobbyError err)
  then show ?thesis
    by (simp add: Let_def showError_def)
qed (simp_all add: assms(1) updateStartButton_guest showScreen_def showError_def
      updateSettingsDisplay_def)

lemma lobby_joined_button:
  "disabled (start_game_btn (on_lobby_event (LobbyJoined l u m) s)) = disabled (start_game_btn s) \<and>
   start_text (start_game_btn (on_lobby_event (LobbyJoined l u m) s)) = start_text (start_game_btn s)"
  using showLobbyRoom_guest
    [of "showMessage m ''success'' (s\<lparr>currentLobby := Some l, isHost := False, username := u\<rparr>)"]
  by simp

text \<open>
  C5, as the code has it. What \<open>updateStartButton\<close> writes is a function of the
  snapshot alone: the button is enabled exactly when the snapshot has at least two
  players and all of them are ready, and the label is Start Game, Need More Players (fewer
  than two) or Waiting for Players. It is recomputed on \<open>lobby_created\<close>, which makes
  the page the host's, and on the host's page on \<open>player_joined\<close>, \<open>player_left\<close> and
  \<open>player_ready_changed\<close>. A \<open>lobby_config_updated\<close> replaces the snapshot without
  touching the button. On a page that is not the host's no lobby event other than
  \<open>lobby_created\<close> changes whether the button is enabled or what its label says;
  \<open>lobby_joined\<close>, on any page, makes the page a guest's and leaves both as they were.
\<close>

theorem start_button_from_snapshot:
  assumes "ev = LobbyCreated l m \<or>
           (isHost s \<and> (ev = PlayerJoined l m \<or> ev = PlayerLeft l m \<or> ev = PlayerReadyChanged l m))"
  shows "currentLobby (on_lobby_event ev s) = Some l \<and>
         (\<not> disabled (start_game_btn (on_lobby_event ev s))) =
           (2 \<le> length (players l) \<and> list_all p_isReady (players l)) \<and>
         start_text (start_game_btn (on_lobby_event ev s)) =
           (if 2 \<le> length (players l) \<and> list_all p_isReady (players l) then ''Start Game''
            else if length (players l) < 2 then ''Need More Players''
            else ''Waiting for Players'') \<and>
         currentLobby (on_lobby_event (LobbyConfigUpdated l m) s) = Some l \<and>
         start_game_btn (on_lobby_event (LobbyConfigUpdated l m) s) = start_game_btn s \<and>
         (\<not> isHost s \<longrightarrow>
            start_game_btn (on_lobby_event (PlayerJoined l m) s) = start_game_btn s \<and>
            start_game_btn (on_lobby_event (PlayerLeft l m) s) = start_game_btn s \<and>
            start_game_btn (on_lobby_event (PlayerReadyChanged l m) s) = start_game_btn s) \<and>
         (\<forall>e. \<not> isHost s \<and> (\<forall>l' m'. e \<noteq> LobbyCreated l' m') \<longrightarrow>
            disabled (start_game_btn (on_lobby_event e s)) = disabled (start_game_btn s) \<and>
            start_text (start_game_btn (on_lobby_event e s)) = start_text (start_game_btn s)) \<and>
         (\<forall>l' u m'.
            disabled (start_game_btn (on_lobby_event (LobbyJoined l' u m') s)) =
              disabled (start_game_btn s) \<and>
            start_text (start_game_btn (on_lobby_event (LobbyJoined l' u m') s)) =
              start_text (start_game_btn s))"
proof -
  have "\<exists>s1. on_lobby_event ev s = updateStartButton s1 \<and> isHost s1 \<and> currentLobby s1 = Some l"
  proof (cases "ev = LobbyCreated l m")
    case True
    then show ?thesis
      using showLobbyRoom_host [of "showMessage m ''success'' (s\<lparr>currentLobby := Some l, isHost := True\<rparr>)" l]
      by simp
  next
    case False
    then have "isHost s" and "ev = PlayerJoined l m \<or> ev = PlayerLeft l m \<or> ev = PlayerReadyChanged l m"
      using assms by auto
    then show ?thesis
      by auto
  qed
  then obtain s1 where s1: "on_lobby_event ev s = updateStartButton s1" "isHost s1"
      "currentLobby s1 = Some l"
    by blast
  have host: "currentLobby (on_lobby_event ev s) = Some l \<and>
         (\<not> disabled (start_game_btn (on_lobby_event ev s))) =
           (2 \<le> length (players l) \<and> list_all p_isReady (players l)) \<and>
         start_text (start_game_btn (on_lobby_event ev s)) =
           (if 2 \<le> length (players l) \<and> list_all p_isReady (players l) then ''Start Game''
            else if length (players l) < 2 then ''Need More Players''
            else ''Waiting for Players'')"
    using updateStartButton_host [OF s1(2) s1(3)] s1(1) by simp
  have cfg: "currentLobby (on_lobby_event (LobbyConfigUpdated l m) s) = Some l \<and>
         start_game_btn (on_lobby_event (LobbyConfigUpdated l m) s) = start_game_btn s"
    by (simp add: updateSettingsDisplay_def)
  have guest: "\<not> isHost s \<longrightarrow>
            start_game_btn (on_lobby_event (PlayerJoined l m) s) = start_game_btn s \<and>
            start_game_btn (on_lobby_event (PlayerLeft l m) s) = start_game_btn s \<and>
            start_game_btn (on_lobby_event (PlayerReadyChanged l m) s) = start_game_btn s"
    by (simp add: updateStartButton_guest)
  have every: "\<forall>e. \<not> isHost s \<and> (\<forall>l' m'. e \<noteq> LobbyCreated l' m') \<longrightarrow>
            disabled (start_game_btn (on_lobby_event e s)) = disabled (start_game_btn s) \<and>
            start_text (start_game_btn (on_lobby_event e s)) = start_text (start_game_btn s)"
    using guest_page_button [of s] by blast
  have joined: "\<forall>l' u m'.
            disabled (start_game_btn (on_lobby_event (LobbyJoined l' u m') s)) =
              disabled (start_game_btn s) \<and>
            start_text (start_game_btn (on_lobby_event (LobbyJoined l' u m') s)) =
              start_text (start_game_btn s)"
    using lobby_joined_button [of _ _ _ s] by blast
  show ?thesis
    using host cfg guest every joined by blast
qed

theorem start_button_from_snapshot_witness:
  "\<not> disabled (start_game_btn
      (on_lobby_event (LobbyCreated (table_of [member ''ann'' True True, member ''bob'' False True]) ''ok'')
         blank_lobby_page)) \<and>
   start_text (start_game_btn
      (on_lobby_event (LobbyCreated (table_of [member ''ann'' True True, member ''bob'' False True]) ''ok'')
         blank_lobby_page)) = ''Start Game'' \<and>
   isHost (blank_lobby_page\<lparr>isHost := True\<rparr>) \<and>
   disabled (start_game_btn
      (on_lobby_event (PlayerJoined (table_of [member ''ann'' True True, member ''bob'' False False]) ''in'')
         (blank_lobby_page\<lparr>isHost := True\<rparr>))) \<and>
   start_text (start_game_btn
      (on_lobby_event (PlayerJoined (table_of [member ''ann'' True True, member ''bob'' False False]) ''in'')
         (blank_lobby_page\<lparr>isHost := True\<rparr>))) = ''Waiting for Players'' \<and>
   \<not> isHost blank_lobby_page \<and>
   disabled (start_game_btn
      (on_lobby_event
         (LobbyJoined (table_of [member ''ann'' True True, member ''bob'' False True]) ''bob'' ''in'')
         blank_lobby_page)) \<and>
   start_text (start_game_btn
      (on_lobby_event
         (LobbyJoined (table_of [member ''ann'' True True, member ''bob'' False True]) ''bob'' ''in'')
         blank_lobby_page)) = ''Start Game'' \<and>
   start_display (start_game_btn
      (on_lobby_event
         (LobbyJoined (table_of [member ''ann'' True True, member ''bob'' False True]) ''bob'' ''in'')
         blank_lobby_page)) = ''none''"
proof -
  have h: "isHost (blank_lobby_page\<lparr>isHost := True\<rparr>)"
    by simp
  have g: "\<not> isHost blank_lobby_page" "disabled (start_game_btn blank_lobby_page)"
    "start_text (start_game_btn blank_lobby_page) = ''Start Game''"
    by (simp_all add: blank_lobby_page_def)
  have d: "start_display (start_game_btn
      (on_lobby_event
         (LobbyJoined (table_of [member ''ann'' True True, member ''bob'' False True]) ''bob'' ''in'')
         blank_lobby_page)) = ''none''"
    by (simp add: showLobbyRoom_def updateStartButton_guest updateHostControls_def
        updateSettingsDisplay_def updateLobbyDisplay_def showScreen_def)
  note T1 = start_button_from_snapshot [of
        "LobbyCreated (table_of [member ''ann'' True True, member ''bob'' False True]) ''ok''"
        "table_of [member ''ann'' True True, member ''bob'' False True]" "''ok''" blank_lobby_page]
  note T2 = start_button_from_snapshot [of
        "PlayerJoined (table_of [member ''ann'' True True, member ''bob'' False False]) ''in''"
        "table_of [member ''ann'' True True, member ''bob'' False False]" "''in''"
        "blank_lobby_page\<lparr>isHost := True\<rparr>"]
  have j: "disabled (start_game_btn
      (on_lobby_event
         (LobbyJoined (table_of [member ''ann'' True True, member ''bob'' False True]) ''bob'' ''in'')
         blank_lobby_page)) = disabled (start_game_btn blank_lobby_page) \<and>
    start_text (start_game_btn
      (on_lobby_event
         (LobbyJoined (table_of [member ''ann'' True True, member ''bob'' False True]) ''bob'' ''in'')
         blank_lobby_page)) = start_text (start_game_btn blank_lobby_page)"
    using T1 by blast
  show ?thesis
    using h g d j T1 T2
    by (simp add: table_of_def member_def)
qed

text \<open>
  C5 as stated fails: the host creates a lobby and is alone in it, so the button reads
  Need More Players; a \<open>lobby_config_updated\<close> then brings a snapshot with two ready
  players, the page holds that snapshot, and the button is still disabled under the old
  label.
\<close>

theorem config_update_leaves_start_button:
  "currentLobby
     (on_lobby_event
        (LobbyConfigUpdated (table_of [member ''sock1'' True True, member ''bob'' False True]) ''cfg'')
        (on_lobby_event (LobbyCreated (table_of [member ''sock1'' True False]) ''ok'')
           blank_lobby_page)) =
     Some (table_of [member ''sock1'' True True, member ''bob'' False True]) \<and>
   start_game_btn
     (on_lobby_event
        (LobbyConfigUpdated (table_of [member ''sock1'' True True, member ''bob'' False True]) ''cfg'')
        (on_lobby_event (LobbyCreated (table_of [member ''sock1'' True False]) ''ok'')
           blank_lobby_page)) =
     \<lparr>disabled = True, start_text = ''Need More Players'', start_display = ''inline-block''\<rparr>"
  by (simp add: blank_lobby_page_def table_of_def member_def showLobbyRoom_def
      updateStartButton_def updateHostControls_def updateSettingsDisplay_def
      updatePlayersDisplay_def updateLobbyDisplay_def showScreen_def showMessage_def
      updateReadyButton_def Let_def)

section \<open>Lobby: creating a lobby\<close>

lemma expo_small: "m < 9007199254740992 \<Longrightarrow> expo m = 0"
  by (subst expo.simps) simp

lemma expo_double: "9007199254740992 \<le> 2 * m \<Longrightarrow> expo (2 * m) = Suc (expo m)"
  by (subst expo.simps) simp

lemma expo_zero_small: "expo m = 0 \<Longrightarrow> m < 9007199254740992"
  by (subst (asm) expo.simps) (simp split: if_splits)

lemma round53_nat_small: "m < 9007199254740992 \<Longrightarrow> round53_nat m = m"
  by (simp add: round53_nat_def expo_small)

text \<open>Doubling is exact: it moves the exponent and leaves the significand alone.\<close>

lemma round53_nat_double: "round53_nat (2 * m) = 2 * round53_nat m"
proof (cases "2 * m < 9007199254740992")
  case True
  then show ?thesis
    by (simp add: round53_nat_small)
next
  case False
  then have e: "expo (2 * m) = Suc (expo m)"
    by (simp add: expo_double)
  have q: "(2 * m) div (2 * 2 ^ expo m) = m div 2 ^ expo m"
    by simp
  have r: "(2 * m) mod (2 * 2 ^ expo m) = 2 * (m mod 2 ^ expo m)"
    by simp
  show ?thesis
  proof (cases "expo m = 0")
    case True
    then show ?thesis
      using e by (simp add: round53_nat_def)
  next
    case False
    then show ?thesis
      using e q r by (simp add: round53_nat_def Let_def)
  qed
qed

lemma round53_double: "round53 (2 * n) = 2 * round53 n"
proof (cases "n < 0")
  case True
  then have "nat (- (2 * n)) = 2 * nat (- n)"
    by simp
  then show ?thesis
    using True by (simp add: round53_def round53_nat_double)
next
  case False
  then have "nat (2 * n) = 2 * nat n"
    by simp
  then show ?thesis
    using False by (simp add: round53_def round53_nat_double)
qed

lemma round53_small: "\<bar>n\<bar> < 9007199254740992 \<Longrightarrow> round53 n = n"
  by (simp add: round53_def round53_nat_small)

lemma below_infinity: "(9007199254740992::int) < 2 ^ 1024"
  by simp

lemma mul_finite:
  assumes "round53 (a * b) = a * b" and "a * b < K" and "- K < a * b" and "K = 2 ^ 1024"
  shows "mul a b = a * b"
proof -
  have "\<not> K \<le> a * b" and "\<not> a * b \<le> - K"
    using assms(2) assms(3) by simp_all
  then show ?thesis
    unfolding mul_def Let_def assms(1) assms(4) [symmetric] by (simp only: if_False)
qed

lemma mul_10_exact:
  assumes "\<bar>b * 10\<bar> < 9007199254740992"
  shows "mul b 10 = b * 10"
proof -
  define K :: int where "K = 2 ^ 1024"
  have big: "9007199254740992 < K"
    unfolding K_def by (rule below_infinity)
  have "b * 10 < K" and "- K < b * 10"
    using assms big by linarith+
  then show ?thesis
    using mul_finite [OF round53_small [OF assms] _ _ K_def] by blast
qed

lemma less_mul_2:
  assumes "round53 a = a" and "\<bar>b\<bar> < 9007199254740992"
  shows "(b < mul a 2) = (b < a * 2)"
proof -
  define K :: int where "K = 2 ^ 1024"
  have big: "9007199254740992 < K"
    unfolding K_def by (rule below_infinity)
  have r: "round53 (a * 2) = a * 2"
    using round53_double [of a] assms(1) by (simp add: mult.commute)
  have m: "mul a 2 = (if K \<le> a * 2 then K else if a * 2 \<le> - K then - K else a * 2)"
    unfolding mul_def Let_def r K_def by (rule refl)
  show ?thesis
    unfolding m using big assms(2) by (simp split: if_splits) linarith+
qed

text \<open>
  C6, as the code has it. The values are those \<open>createLobby\<close> works with, after
  \<open>parseInt(..) || default\<close>; the small blind is a double, as every value \<open>parseInt\<close>
  returns is, and ten times the big blind lies within the range of \<open>2 ^ 53\<close> where the
  product is exact. If the big blind is at least twice the small blind and the starting
  funds at least ten times the big blind, one \<open>create_lobby\<close> command goes out with
  exactly those values and no error is shown; otherwise nothing is sent, the create-lobby
  error slot (and no other) shows the message of the violated rule, and a timeout of
  5000 ms is pending whose callback hides that slot.
\<close>

theorem create_lobby_validation:
  assumes "sb = or_default (small_blind_input i) 5"
    and "bb = or_default (big_blind_input i) 10"
    and "funds = or_default (starting_funds_input i) 1000"
    and "maxP = or_default (max_players_input i) 8"
    and "round53 sb = sb"
    and "\<bar>bb * 10\<bar> < 9007199254740992"
  shows "(sb * 2 \<le> bb \<and> bb * 10 \<le> funds \<longrightarrow>
          sent (createLobby i s) =
            sent s @
            [\<lparr>event = ''create_lobby'',
              payload =
                [(''name'', JStr (if lobbyName_input i = []
                                  then username s @ [CHR 0x27] @ ''s Table''
                                  else lobbyName_input i)),
                 (''smallBlind'', JNum sb), (''bigBlind'', JNum bb),
                 (''startingFunds'', JNum funds), (''maxPlayers'', JNum maxP)]\<rparr>] \<and>
          timers (createLobby i s) = timers s \<and>
          \<not> err_show (error_slots (createLobby i s) ''create-lobby-error'')) \<and>
         (\<not> (sb * 2 \<le> bb \<and> bb * 10 \<le> funds) \<longrightarrow>
          sent (createLobby i s) = sent s \<and>
          error_slots (createLobby i s) ''create-lobby-error'' =
            \<lparr>err_text = (if bb < sb * 2
                          then ''Big blind must be at least double the small blind''
                          else ''Starting funds must be at least 10 times the big blind''),
             err_show = True\<rparr> \<and>
          (\<forall>el. el \<noteq> ''create-lobby-error'' \<longrightarrow>
             error_slots (createLobby i s) el = error_slots s el) \<and>
          timers (createLobby i s) = timers s @ [(5000, ''create-lobby-error'')] \<and>
          \<not> err_show (error_slots (timeout_fires (length (timers s)) (createLobby i s))
                        ''create-lobby-error''))"
proof -
  have b: "\<bar>bb\<bar> < 9007199254740992"
    using assms(6) by simp
  have c1: "(bb < mul sb 2) = (bb < sb * 2)"
    using less_mul_2 [OF assms(5) b] .
  have c2: "mul bb 10 = bb * 10"
    using mul_10_exact [OF assms(6)] .
  show ?thesis
    using c1 c2 assms(1-4)
    by (simp add: createLobby_def Let_def showError_def hideError_def lobby_emit_def
        timeout_fires_def nth_append)
qed

theorem create_lobby_validation_witness:
  "round53 5 = 5 \<and> \<bar>(10::int) * 10\<bar> < 9007199254740992 \<and> \<bar>(9::int) * 10\<bar> < 9007199254740992 \<and>
   sent (createLobby
           \<lparr>lobbyName_input = ''Friday'', small_blind_input = Some 5, big_blind_input = Some 10,
            starting_funds_input = Some 1000, max_players_input = None\<rparr> blank_lobby_page) =
     [\<lparr>event = ''create_lobby'',
       payload = [(''name'', JStr ''Friday''), (''smallBlind'', JNum 5), (''bigBlind'', JNum 10),
                  (''startingFunds'', JNum 1000), (''maxPlayers'', JNum 8)]\<rparr>] \<and>
   sent (createLobby
           \<lparr>lobbyName_input = [], small_blind_input = Some 5, big_blind_input = Some 9,
            starting_funds_input = Some 1000, max_players_input = None\<rparr> blank_lobby_page) = [] \<and>
   timers (createLobby
           \<lparr>lobbyName_input = [], small_blind_input = Some 5, big_blind_input = Some 9,
            starting_funds_input = Some 1000, max_players_input = None\<rparr> blank_lobby_page) =
     [(5000, ''create-lobby-error'')]"
proof -
  let ?ok = "\<lparr>lobbyName_input = ''Friday'', small_blind_input = Some 5, big_blind_input = Some 10,
            starting_funds_input = Some 1000, max_players_input = None\<rparr>"
  let ?bad = "\<lparr>lobbyName_input = [], small_blind_input = Some 5, big_blind_input = Some 9,
            starting_funds_input = Some 1000, max_players_input = None\<rparr>"
  have h: "sent blank_lobby_page = []" "timers blank_lobby_page = []"
    by (simp_all add: blank_lobby_page_def)
  have v: "(5::int) = or_default (small_blind_input ?ok) 5" "(10::int) = or_default (big_blind_input ?ok) 10"
    "(1000::int) = or_default (starting_funds_input ?ok) 1000"
    "(8::int) = or_default (max_players_input ?ok) 8"
    "(5::int) = or_default (small_blind_input ?bad) 5" "(9::int) = or_default (big_blind_input ?bad) 10"
    "(1000::int) = or_default (starting_funds_input ?bad) 1000"
    "(8::int) = or_default (max_players_input ?bad) 8"
    by (simp_all add: or_default_def)
  have d: "round53 5 = 5"
    by (simp add: round53_small)
  have r1: "\<bar>(10::int) * 10\<bar> < 9007199254740992" and r2: "\<bar>(9::int) * 10\<bar> < 9007199254740992"
    by simp_all
  show ?thesis
    using h d r1 r2
      create_lobby_validation [OF v(1) v(2) v(3) v(4) d r1, of blank_lobby_page]
      create_lobby_validation [OF v(5) v(6) v(7) v(8) d r2, of blank_lobby_page]
    by simp
qed

text \<open>
  C6 as stated fails outside that range. With small blind 1, big blind 1801439850948201
  and starting funds 18014398509482008, all three doubles, the funds are two short of ten
  times the big blind; the product 18014398509482010 lies halfway between two doubles and
  rounds to 18014398509482008, the guard \<open>startingFunds < bigBlind * 10\<close> is false, and
  the command is sent.
\<close>

theorem rounded_product_lets_low_funds_pass:
  "round53 1 = 1 \<and> round53 1801439850948201 = 1801439850948201 \<and>
   round53 18014398509482008 = 18014398509482008 \<and>
   (1::int) * 2 \<le> 1801439850948201 \<and>
   (18014398509482008::int) < 1801439850948201 * 10 \<and>
   sent (createLobby
           \<lparr>lobbyName_input = ''High'', small_blind_input = Some 1,
            big_blind_input = Some 1801439850948201,
            starting_funds_input = Some 18014398509482008, max_players_input = Some 8\<rparr>
           blank_lobby_page) =
     [\<lparr>event = ''create_lobby'',
       payload = [(''name'', JStr ''High''), (''smallBlind'', JNum 1),
                  (''bigBlind'', JNum 1801439850948201),
                  (''startingFunds'', JNum 18014398509482008), (''maxPlayers'', JNum 8)]\<rparr>]"
  by (simp add: createLobby_def mul_def round53_def round53_nat_def expo.simps Let_def
      or_default_def blank_lobby_page_def lobby_emit_def hideError_def)

text \<open>
  \<open>showError\<close> does not cancel the timeouts of earlier errors: after two rejected
  submissions two are pending, and when the older one fires it hides the newer message
  while that message's own timeout is still pending.
\<close>

lemma older_timeout_hides_newer_error:
  "timers (createLobby
             \<lparr>lobbyName_input = [], small_blind_input = Some 5, big_blind_input = Some 9,
              starting_funds_input = Some 1000, max_players_input = None\<rparr>
             (createLobby
                \<lparr>lobbyName_input = [], small_blind_input = Some 5, big_blind_input = Some 9,
                 starting_funds_input = Some 1000, max_players_input = None\<rparr> blank_lobby_page)) =
     [(5000, ''create-lobby-error''), (5000, ''create-lobby-error'')] \<and>
   \<not> err_show (error_slots
      (timeout_fires 0
         (createLobby
             \<lparr>lobbyName_input = [], small_blind_input = Some 5, big_blind_input = Some 9,
              starting_funds_input = Some 1000, max_players_input = None\<rparr>
             (createLobby
                \<lparr>lobbyName_input = [], small_blind_input = Some 5, big_blind_input = Some 9,
                 starting_funds_input = Some 1000, max_players_input = None\<rparr> blank_lobby_page)))
      ''create-lobby-error'') \<and>
   timers
      (timeout_fires 0
         (createLobby
             \<lparr>lobbyName_input = [], small_blind_input = Some 5, big_blind_input = Some 9,
              starting_funds_input = Some 1000, max_players_input = None\<rparr>
             (createLobby
                \<lparr>lobbyName_input = [], small_blind_input = Some 5, big_blind_input = Some 9,
                 starting_funds_input = Some 1000, max_players_input = None\<rparr> blank_lobby_page))) =
     [(5000, ''create-lobby-error'')]"
  by (simp add: createLobby_def mul_def round53_def round53_nat_def expo.simps Let_def
      or_default_def blank_lobby_page_def showError_def hideError_def timeout_fires_def)

section \<open>Ability dialog: reading the form\<close>

lemma find_None_list_all: "(find P xs = None) = list_all (\<lambda>x. \<not> P x) xs"
  by (induction xs) simp_all

lemma known_tag_nonempty: "known_tag tag \<Longrightarrow> tag \<noteq> []"
  by (auto simp: known_tag_def toLowerCase_def)

lemma getSelectionData_None_iff:
  assumes "toLowerCase tag = ''peek'' \<Longrightarrow> peek_player f \<noteq> None \<and> peek_card f \<noteq> None"
  shows "(getSelectionData tag data f = None) = required_unset_spec tag f"
proof -
  consider (peek) "toLowerCase tag = ''peek''" | (burn) "toLowerCase tag = ''burn''"
    | (manifest) "toLowerCase tag = ''manifest''" | (trashman) "toLowerCase tag = ''trashman''"
    | (yoink) "toLowerCase tag = ''yoink''" | (other) "\<not> known_tag tag"
    by (auto simp: known_tag_def)
  then show ?thesis
  proof cases
    case peek
    then obtain pl cd where "peek_player f = Some pl" "peek_card f = Some cd"
      using assms by auto
    then show ?thesis
      using peek
      by (simp add: getSelectionData_def required_unset_spec_def getPeekSelection_def
          select_unset_def)
  next
    case burn
    then show ?thesis
      by (simp add: getSelectionData_def required_unset_spec_def getBurnSelection_def
          find_None_list_all [symmetric] split: option.splits)
  next
    case manifest
    then show ?thesis
      by (simp add: getSelectionData_def required_unset_spec_def getManifestSelection_def
          find_None_list_all [symmetric] split: option.splits)
  next
    case trashman
    then show ?thesis
      by (simp add: getSelectionData_def required_unset_spec_def getTrashmanSelection_def
          find_None_list_all [symmetric] split: option.splits)
  next
    case yoink
    let ?h = "find (\<lambda>b. grid_id b = ''yoink-hole-grid'' \<and> selected b) (card_selection_btns f)"
    let ?b = "find (\<lambda>b. grid_id b = ''yoink-board-grid'' \<and> selected b) (card_selection_btns f)"
    have "(getSelectionData tag data f = None) = (?h = None \<or> ?b = None)"
      using yoink
      by (simp add: getSelectionData_def getYoinkSelection_def split: option.splits)
    moreover have "required_unset_spec tag f = (?h = None \<or> ?b = None)"
      using yoink unfolding find_None_list_all
      by (simp add: required_unset_spec_def)
    ultimately show ?thesis by simp
  next
    case other
    then show ?thesis
      by (simp add: getSelectionData_def required_unset_spec_def known_tag_def)
  qed
qed

lemma getSelectionData_shape:
  assumes "getSelectionData (abilityUsed data) data f = Some sel"
  shows "map fst sel = shape_spec data"
proof -
  consider (peek) "toLowerCase (abilityUsed data) = ''peek''"
    | (burn) "toLowerCase (abilityUsed data) = ''burn''"
    | (manifest) "toLowerCase (abilityUsed data) = ''manifest''"
    | (trashman) "toLowerCase (abilityUsed data) = ''trashman''"
    | (yoink) "toLowerCase (abilityUsed data) = ''yoink''"
    | (other) "\<not> known_tag (abilityUsed data)"
    by (auto simp: known_tag_def)
  then show ?thesis
  proof cases
    case peek
    then show ?thesis
      using assms
      by (auto simp: getSelectionData_def shape_spec_def getPeekSelection_def
          split: option.splits if_splits)
  next
    case burn
    then show ?thesis
      using assms
      by (auto simp: getSelectionData_def shape_spec_def getBurnSelection_def
          split: option.splits)
  next
    case manifest
    then show ?thesis
      using assms
      by (auto simp: getSelectionData_def shape_spec_def getManifestSelection_def
          split: option.splits)
  next
    case trashman
    then show ?thesis
      using assms
      by (auto simp: getSelectionData_def shape_spec_def getTrashmanSelection_def
          split: option.splits if_splits)
  next
    case yoink
    then show ?thesis
      using assms
      by (auto simp: getSelectionData_def shape_spec_def getYoinkSelection_def
          split: option.splits)
  next
    case other
    then show ?thesis
      using assms by (simp add: getSelectionData_def known_tag_def)
  qed
qed

lemma confirmSelection_unset:
  assumes "currentAbility s = Some tag" and "currentChoices s = Some data"
    and "getSelectionData tag data (selection_content s) = None"
  shows "outbox (snd (confirmSelection s)) = outbox s \<and>
         window_hidden (snd (confirmSelection s)) = window_hidden s \<and>
         currentAbility (snd (confirmSelection s)) = Some tag \<and>
         currentChoices (snd (confirmSelection s)) = Some data \<and>
         selection_content (snd (confirmSelection s)) = selection_content s"
  using assms by (simp add: confirmSelection_def)

lemma confirmSelection_complete:
  assumes "currentAbility s = Some tag" and "currentChoices s = Some data"
    and "getSelectionData tag data (selection_content s) = Some sel" and "tag \<noteq> []"
  shows "outbox (snd (confirmSelection s)) =
           outbox s @ [\<lparr>event = ''use_ability'',
                        payload = [(''gameId'', JStr (gameId s)), (''ability'', JStr tag)] @ sel\<rparr>] \<and>
         window_hidden (snd (confirmSelection s)) \<and>
         currentAbility (snd (confirmSelection s)) = None \<and>
         currentChoices (snd (confirmSelection s)) = None"
  using assms by (simp add: confirmSelection_def Let_def)

lemma confirmSelection_idle:
  "currentAbility s = None \<or> currentChoices s = None \<Longrightarrow> confirmSelection s = (None, s)"
  by (auto simp: confirmSelection_def split: option.splits)

lemma form_action_keeps:
  assumes "form_action a"
  shows "outbox (snd (on_click a s)) = outbox s \<and>
         currentAbility (snd (on_click a s)) = currentAbility s \<and>
         currentChoices (snd (on_click a s)) = currentChoices s \<and>
         window_hidden (snd (on_click a s)) = window_hidden s \<and>
         gameId (snd (on_click a s)) = gameId s \<and>
         (peek_player (selection_content s) \<noteq> None \<longrightarrow>
            peek_player (selection_content (snd (on_click a s))) \<noteq> None) \<and>
         (peek_card (selection_content s) \<noteq> None \<longrightarrow>
            peek_card (selection_content (snd (on_click a s))) \<noteq> None)"
  using assms by (cases a) (auto simp: clickCardBtn_def Let_def)

lemma run_form_actions:
  assumes "\<forall>a \<in> set acts. form_action a"
  shows "outbox (run (map User acts) s) = outbox s \<and>
         currentAbility (run (map User acts) s) = currentAbility s \<and>
         currentChoices (run (map User acts) s) = currentChoices s \<and>
         window_hidden (run (map User acts) s) = window_hidden s \<and>
         gameId (run (map User acts) s) = gameId s \<and>
         (peek_player (selection_content s) \<noteq> None \<longrightarrow>
            peek_player (selection_content (run (map User acts) s)) \<noteq> None) \<and>
         (peek_card (selection_content s) \<noteq> None \<longrightarrow>
            peek_card (selection_content (run (map User acts) s)) \<noteq> None)"
  using assms
proof (induction acts arbitrary: s)
  case Nil
  then show ?case by simp
next
  case (Cons a acts)
  have a: "form_action a" and rest: "\<forall>x \<in> set acts. form_action x"
    using Cons.prems by simp_all
  show ?case
    using form_action_keeps [OF a, of s] Cons.IH [OF rest, of "snd (on_click a s)"]
    by simp
qed

lemma showAbilitySelection_peek_form:
  "toLowerCase (abilityUsed data) = ''peek'' \<Longrightarrow>
   peek_player (selection_content (showAbilitySelection data s)) \<noteq> None \<and>
   peek_card (selection_content (showAbilitySelection data s)) \<noteq> None"
  by (simp add: showAbilitySelection_def Let_def addActionLog_def createPeekInterface_def)

text \<open>
  The state in which the user confirms: a prompt has been shown and the form controls
  have been operated any number of times.
\<close>

lemma prompt_then_form:
  assumes "\<forall>a \<in> set acts. form_action a"
    and "s1 = run (map User acts) (showAbilitySelection data s0)"
  shows "outbox s1 = outbox s0 \<and> gameId s1 = gameId s0 \<and> \<not> window_hidden s1 \<and>
         currentAbility s1 = Some (abilityUsed data) \<and> currentChoices s1 = Some data \<and>
         (getSelectionData (abilityUsed data) data (selection_content s1) = None) =
           required_unset_spec (abilityUsed data) (selection_content s1)"
proof -
  have k: "outbox s1 = outbox s0 \<and> gameId s1 = gameId s0 \<and> \<not> window_hidden s1 \<and>
         currentAbility s1 = Some (abilityUsed data) \<and> currentChoices s1 = Some data"
    using run_form_actions [OF assms(1), of "showAbilitySelection data s0"] assms(2) by simp
  have "toLowerCase (abilityUsed data) = ''peek'' \<Longrightarrow>
        peek_player (selection_content s1) \<noteq> None \<and> peek_card (selection_content s1) \<noteq> None"
    using run_form_actions [OF assms(1), of "showAbilitySelection data s0"] assms(2)
      showAbilitySelection_peek_form [of data s0]
    by simp
  then show ?thesis
    using k getSelectionData_None_iff [of "abilityUsed data" "selection_content s1" data]
    by simp
qed

section \<open>Ability dialog: confirming\<close>

text \<open>
  C4. A prompt is shown and the user operates the form, then clicks Confirm. If a
  required field of the form for the prompt's tag is unset, nothing has been sent since
  the prompt came and the dialog stays open, with its prompt and form as they were. If
  the tag is one of the five with a form and the selection is complete, exactly one
  \<open>use_ability\<close> message goes out, carrying the game id, the tag and the selection fields
  of that tag, and the dialog is closed.
\<close>

theorem confirm_after_prompt:
  assumes "\<forall>a \<in> set acts. form_action a"
    and "s1 = run (map User acts) (showAbilitySelection data s0)"
  shows "(required_unset_spec (abilityUsed data) (selection_content s1) \<longrightarrow>
            outbox (snd (confirmSelection s1)) = outbox s0 \<and>
            \<not> window_hidden (snd (confirmSelection s1)) \<and>
            currentChoices (snd (confirmSelection s1)) = Some data \<and>
            selection_content (snd (confirmSelection s1)) = selection_content s1) \<and>
         (known_tag (abilityUsed data) \<and>
          \<not> required_unset_spec (abilityUsed data) (selection_content s1) \<longrightarrow>
            (\<exists>sel. map fst sel = shape_spec data \<and>
                   outbox (snd (confirmSelection s1)) =
                     outbox s0 @
                     [\<lparr>event = ''use_ability'',
                       payload = [(''gameId'', JStr (gameId s0)),
                                  (''ability'', JStr (abilityUsed data))] @ sel\<rparr>]) \<and>
            window_hidden (snd (confirmSelection s1)))"
proof -
  note p = prompt_then_form [OF assms]
  have unset: "required_unset_spec (abilityUsed data) (selection_content s1) \<longrightarrow>
            outbox (snd (confirmSelection s1)) = outbox s0 \<and>
            \<not> window_hidden (snd (confirmSelection s1)) \<and>
            currentChoices (snd (confirmSelection s1)) = Some data \<and>
            selection_content (snd (confirmSelection s1)) = selection_content s1"
    using p confirmSelection_unset [of s1 "abilityUsed data" data] by simp
  have complete: "(\<exists>sel. map fst sel = shape_spec data \<and>
                   outbox (snd (confirmSelection s1)) =
                     outbox s0 @
                     [\<lparr>event = ''use_ability'',
                       payload = [(''gameId'', JStr (gameId s0)),
                                  (''ability'', JStr (abilityUsed data))] @ sel\<rparr>]) \<and>
            window_hidden (snd (confirmSelection s1))"
    if k: "known_tag (abilityUsed data)"
      and c: "\<not> required_unset_spec (abilityUsed data) (selection_content s1)"
  proof -
    obtain sel where sel: "getSelectionData (abilityUsed data) data (selection_content s1) = Some sel"
      using p c by auto
    have "map fst sel = shape_spec data"
      using getSelectionData_shape [OF sel] .
    then show ?thesis
      using p confirmSelection_complete [of s1 "abilityUsed data" data sel] sel
        known_tag_nonempty [OF k]
      by auto
  qed
  show ?thesis
    using unset complete by blast
qed

theorem confirm_after_prompt_witness:
  "outbox (snd (confirmSelection
      (run (map User []) (showAbilitySelection (blank_prompt\<lparr>abilityUsed := ''Peek''\<rparr>) blank_page)))) = [] \<and>
   \<not> window_hidden (snd (confirmSelection
      (run (map User []) (showAbilitySelection (blank_prompt\<lparr>abilityUsed := ''Peek''\<rparr>) blank_page)))) \<and>
   outbox (snd (confirmSelection
      (run (map User [ClickCard 1])
         (showAbilitySelection
            (blank_prompt\<lparr>abilityUsed := ''Manifest'',
               availableCards := Some [pick 0 ''Ace of Spades'', pick 1 ''3 of Hearts'']\<rparr>)
            blank_page)))) =
     [\<lparr>event = ''use_ability'',
       payload = [(''gameId'', JStr ''g1''), (''ability'', JStr ''Manifest''),
                  (''discardIndex'', JNum 1), (''drawnCard'', JNull), (''drawnCardSuit'', JNull)]\<rparr>] \<and>
   window_hidden (snd (confirmSelection
      (run (map User [ClickCard 1])
         (showAbilitySelection
            (blank_prompt\<lparr>abilityUsed := ''Manifest'',
               availableCards := Some [pick 0 ''Ace of Spades'', pick 1 ''3 of Hearts'']\<rparr>)
            blank_page))))"
proof -
  have a0: "\<forall>a \<in> set []. form_action a" and a1: "\<forall>a \<in> set [ClickCard 1]. form_action a"
    by simp_all
  have u: "required_unset_spec (abilityUsed (blank_prompt\<lparr>abilityUsed := ''Peek''\<rparr>))
             (selection_content
                (run (map User []) (showAbilitySelection (blank_prompt\<lparr>abilityUsed := ''Peek''\<rparr>) blank_page)))"
    by code_simp
  have o: "outbox blank_page = []"
    by (simp add: blank_page_def)
  have k: "known_tag ''Manifest''"
    by code_simp
  have c: "\<not> required_unset_spec ''Manifest''
             (selection_content
                (run (map User [ClickCard 1])
                   (showAbilitySelection
                      (blank_prompt\<lparr>abilityUsed := ''Manifest'',
                         availableCards := Some [pick 0 ''Ace of Spades'', pick 1 ''3 of Hearts'']\<rparr>)
                      blank_page)))"
    by code_simp
  have v: "outbox (snd (confirmSelection
      (run (map User [ClickCard 1])
         (showAbilitySelection
            (blank_prompt\<lparr>abilityUsed := ''Manifest'',
               availableCards := Some [pick 0 ''Ace of Spades'', pick 1 ''3 of Hearts'']\<rparr>)
            blank_page)))) =
     [\<lparr>event = ''use_ability'',
       payload = [(''gameId'', JStr ''g1''), (''ability'', JStr ''Manifest''),
                  (''discardIndex'', JNum 1), (''drawnCard'', JNull), (''drawnCardSuit'', JNull)]\<rparr>]"
    by code_simp
  show ?thesis
    using u o v k c
      confirm_after_prompt [OF a0 refl, of "blank_prompt\<lparr>abilityUsed := ''Peek''\<rparr>" blank_page]
      confirm_after_prompt [OF a1 refl,
        of "blank_prompt\<lparr>abilityUsed := ''Manifest'',
               availableCards := Some [pick 0 ''Ace of Spades'', pick 1 ''3 of Hearts'']\<rparr>" blank_page]
    by simp
qed

text \<open>
  The Burn form comes with its first radio button checked, so a Confirm right after the
  prompt already sends the selection. The exception is the one of the closing log line;
  the log holds the line of the prompt and no line for the confirmation.
\<close>

lemma burn_prompt_is_preselected:
  "outbox (snd (confirmSelection (showAbilitySelection (blank_prompt\<lparr>abilityUsed := ''burn''\<rparr>) blank_page))) =
     [\<lparr>event = ''use_ability'',
       payload = [(''gameId'', JStr ''g1''), (''ability'', JStr ''burn''), (''revealSuit'', JBool True)]\<rparr>] \<and>
   fst (confirmSelection (showAbilitySelection (blank_prompt\<lparr>abilityUsed := ''burn''\<rparr>) blank_page)) =
     Some TypeError \<and>
   actions_log (snd (confirmSelection (showAbilitySelection (blank_prompt\<lparr>abilityUsed := ''burn''\<rparr>) blank_page))) =
     [([S ''Burn Ability'', S '' - '', S ''Make your selection''], ''system'')]"
  by code_simp

section \<open>Ability dialog: the two-step ability\<close>

text \<open>
  C9. A Trashman prompt of the second step that echoes the burnt card chosen in step one
  is shown, the user picks a hole card and confirms: the one \<open>use_ability\<close> message sent
  carries, as \<open>burntCardIndex\<close>, the index of the echoed card as it came, beside the
  \<open>holeCardIndex\<close> read from the form.
\<close>

theorem trashman_step2_echo:
  assumes "\<forall>a \<in> set acts. form_action a"
    and "s1 = run (map User acts) (showAbilitySelection data s0)"
    and "toLowerCase (abilityUsed data) = ''trashman''"
    and "step_or_1 data \<noteq> 1"
    and "chosenBurntCard data = Some c"
    and "\<not> required_unset_spec (abilityUsed data) (selection_content s1)"
  shows "\<exists>hole. outbox (snd (confirmSelection s1)) =
           outbox s0 @
           [\<lparr>event = ''use_ability'',
             payload = [(''gameId'', JStr (gameId s0)), (''ability'', JStr (abilityUsed data)),
                        (''burntCardIndex'', JNum (choice_index c)),
                        (''holeCardIndex'', hole)]\<rparr>]"
proof -
  note p = prompt_then_form [OF assms(1) assms(2)]
  obtain sel where sel: "getSelectionData (abilityUsed data) data (selection_content s1) = Some sel"
    using p assms(6) by auto
  then have "getTrashmanSelection data (selection_content s1) = Some sel"
    using assms(3) by (simp add: getSelectionData_def)
  then have "\<exists>hole. sel = [(''burntCardIndex'', JNum (choice_index c)), (''holeCardIndex'', hole)]"
    using assms(4) assms(5)
    by (auto simp: getTrashmanSelection_def split: option.splits)
  then obtain hole where
    hole: "sel = [(''burntCardIndex'', JNum (choice_index c)), (''holeCardIndex'', hole)]"
    by blast
  have "abilityUsed data \<noteq> []"
    using assms(3) by (auto simp: toLowerCase_def)
  then have "outbox (snd (confirmSelection s1)) =
           outbox s0 @
           [\<lparr>event = ''use_ability'',
             payload = [(''gameId'', JStr (gameId s0)), (''ability'', JStr (abilityUsed data)),
                        (''burntCardIndex'', JNum (choice_index c)),
                        (''holeCardIndex'', hole)]\<rparr>]"
    using p sel hole confirmSelection_complete [of s1 "abilityUsed data" data sel]
    by simp
  then show ?thesis by blast
qed

theorem trashman_step2_echo_witness:
  "outbox (snd (confirmSelection
      (run (map User [ClickCard 0])
         (showAbilitySelection
            (blank_prompt\<lparr>abilityUsed := ''trashman'', step := Some 2,
               availableHoleCards := Some [pick 0 ''Ace of Spades'', pick 1 ''3 of Hearts''],
               chosenBurntCard := Some (pick 3 ''King of Clubs'')\<rparr>)
            blank_page)))) =
     [\<lparr>event = ''use_ability'',
       payload = [(''gameId'', JStr ''g1''), (''ability'', JStr ''trashman''),
                  (''burntCardIndex'', JNum 3), (''holeCardIndex'', JNum 0)]\<rparr>]"
proof -
  let ?d = "blank_prompt\<lparr>abilityUsed := ''trashman'', step := Some 2,
               availableHoleCards := Some [pick 0 ''Ace of Spades'', pick 1 ''3 of Hearts''],
               chosenBurntCard := Some (pick 3 ''King of Clubs'')\<rparr>"
  have a: "\<forall>a \<in> set [ClickCard 0]. form_action a"
    by simp
  have t: "toLowerCase (abilityUsed ?d) = ''trashman''"
    by code_simp
  have st: "step_or_1 ?d \<noteq> 1"
    by (simp add: step_or_1_def)
  have ch: "chosenBurntCard ?d = Some (pick 3 ''King of Clubs'')"
    by simp
  have c: "\<not> required_unset_spec (abilityUsed ?d)
             (selection_content (run (map User [ClickCard 0]) (showAbilitySelection ?d blank_page)))"
    by code_simp
  have v: "outbox (snd (confirmSelection
             (run (map User [ClickCard 0]) (showAbilitySelection ?d blank_page)))) =
     [\<lparr>event = ''use_ability'',
       payload = [(''gameId'', JStr ''g1''), (''ability'', JStr ''trashman''),
                  (''burntCardIndex'', JNum 3), (''holeCardIndex'', JNum 0)]\<rparr>]"
    by code_simp
  show ?thesis
    using v trashman_step2_echo [OF a refl t st ch c]
    by simp
qed

section \<open>Ability dialog: the invariant\<close>

lemma dialog_inv_same:
  "window_hidden t = window_hidden s \<Longrightarrow> currentAbility t = currentAbility s \<Longrightarrow>
   currentChoices t = currentChoices s \<Longrightarrow> dialog_inv s \<Longrightarrow> dialog_inv t"
  by (simp add: dialog_inv_def)

lemma confirmSelection_hides:
  "(window_hidden (snd (confirmSelection s)) = window_hidden s \<and>
    currentAbility (snd (confirmSelection s)) = currentAbility s \<and>
    currentChoices (snd (confirmSelection s)) = currentChoices s) \<or>
   (window_hidden (snd (confirmSelection s)) \<and> currentAbility (snd (confirmSelection s)) = None \<and>
    currentChoices (snd (confirmSelection s)) = None)"
  by (simp add: confirmSelection_def Let_def split: option.splits)

lemma on_click_hides:
  "(window_hidden (snd (on_click a s)) = window_hidden s \<and>
    currentAbility (snd (on_click a s)) = currentAbility s \<and>
    currentChoices (snd (on_click a s)) = currentChoices s) \<or>
   (window_hidden (snd (on_click a s)) \<and> currentAbility (snd (on_click a s)) = None \<and>
    currentChoices (snd (on_click a s)) = None)"
proof (cases a)
  case ClickConfirm
  then show ?thesis
    using confirmSelection_hides [of s] by simp
qed (simp_all add: cancelAbility_def useAbility_def)

lemma on_event_hides:
  "(window_hidden (snd (on_event e s)) = window_hidden s \<and>
    currentAbility (snd (on_event e s)) = currentAbility s \<and>
    currentChoices (snd (on_event e s)) = currentChoices s) \<or>
   \<not> window_hidden (snd (on_event e s))"
  by (cases e) (simp_all add: Let_def split: option.splits)

lemma handle_inv: "dialog_inv s \<Longrightarrow> dialog_inv (snd (handle i s))"
proof (cases i)
  case (Recv e)
  then show "dialog_inv s \<Longrightarrow> dialog_inv (snd (handle i s))"
    using on_event_hides [of e s] by (auto simp: dialog_inv_def)
next
  case (User a)
  then show "dialog_inv s \<Longrightarrow> dialog_inv (snd (handle i s))"
    using on_click_hides [of a s] by (auto simp: dialog_inv_def)
qed

lemma run_inv: "dialog_inv s \<Longrightarrow> dialog_inv (run ins s)"
  by (induction ins arbitrary: s) (simp_all add: handle_inv)

lemma init_inv: "dialog_inv (init gid page)"
  by (simp add: init_def dialog_inv_def joinGame_def Let_def split: option.splits)

text \<open>
  C10. From the constructor on, through any sequence of socket messages and user actions,
  a hidden selection window goes with \<open>currentAbility\<close> and \<open>currentChoices\<close> both null.
  Whatever hides an open window (Confirm, Cancel, the dismiss control, a click outside)
  leaves both null. So a Confirm click while the window is hidden returns at its first
  guard: the state is unchanged and nothing is sent.
\<close>

theorem hidden_dialog_is_idle:
  "dialog_inv (run ins (init gid page)) \<and>
   (window_hidden (run ins (init gid page)) \<longrightarrow>
      currentAbility (run ins (init gid page)) = None \<and>
      currentChoices (run ins (init gid page)) = None \<and>
      on_click ClickConfirm (run ins (init gid page)) = (None, run ins (init gid page)) \<and>
      outbox (snd (on_click ClickConfirm (run ins (init gid page)))) =
        outbox (run ins (init gid page))) \<and>
   (\<forall>a. \<not> window_hidden s \<and> window_hidden (snd (on_click a s)) \<longrightarrow>
      currentAbility (snd (on_click a s)) = None \<and> currentChoices (snd (on_click a s)) = None) \<and>
   window_hidden (snd (on_click ClickClose s)) \<and>
   window_hidden (snd (on_click ClickCancel s)) \<and>
   window_hidden (snd (on_click (ClickOverlay True) s))"
proof -
  let ?s = "run ins (init gid page)"
  have inv: "dialog_inv ?s"
    by (rule run_inv) (rule init_inv)
  have idle: "window_hidden ?s \<longrightarrow>
      currentAbility ?s = None \<and> currentChoices ?s = None \<and>
      on_click ClickConfirm ?s = (None, ?s) \<and>
      outbox (snd (on_click ClickConfirm ?s)) = outbox ?s"
    using inv by (simp add: dialog_inv_def confirmSelection_idle)
  have paths: "\<forall>a. \<not> window_hidden s \<and> window_hidden (snd (on_click a s)) \<longrightarrow>
      currentAbility (snd (on_click a s)) = None \<and> currentChoices (snd (on_click a s)) = None"
    using on_click_hides [of _ s] by blast
  have hide: "window_hidden (snd (on_click ClickClose s)) \<and>
      window_hidden (snd (on_click ClickCancel s)) \<and>
      window_hidden (snd (on_click (ClickOverlay True) s))"
    by (simp add: cancelAbility_def)
  show ?thesis
    using inv idle paths hide by blast
qed

theorem hidden_dialog_is_idle_witness:
  "window_hidden
     (run [Recv (AbilityChoiceRequired (blank_prompt\<lparr>abilityUsed := ''burn''\<rparr>)), User ClickClose]
        (init ''g1'' blank_page)) \<and>
   outbox (snd (on_click ClickConfirm
     (run [Recv (AbilityChoiceRequired (blank_prompt\<lparr>abilityUsed := ''burn''\<rparr>)), User ClickClose]
        (init ''g1'' blank_page)))) =
     [\<lparr>event = ''join_game'',
       payload = [(''gameId'', JStr ''g1''), (''playerToken'', JStr ''tok'')]\<rparr>] \<and>
   \<not> window_hidden
     (run [Recv (AbilityChoiceRequired (blank_prompt\<lparr>abilityUsed := ''burn''\<rparr>))]
        (init ''g1'' blank_page)) \<and>
   currentChoices (snd (on_click ClickConfirm
     (run [Recv (AbilityChoiceRequired (blank_prompt\<lparr>abilityUsed := ''burn''\<rparr>))]
        (init ''g1'' blank_page)))) = None"
proof -
  let ?open = "run [Recv (AbilityChoiceRequired (blank_prompt\<lparr>abilityUsed := ''burn''\<rparr>))]
        (init ''g1'' blank_page)"
  let ?closed = "run [Recv (AbilityChoiceRequired (blank_prompt\<lparr>abilityUsed := ''burn''\<rparr>)), User ClickClose]
        (init ''g1'' blank_page)"
  have h: "window_hidden ?closed"
    by simp
  have o: "outbox ?closed =
     [\<lparr>event = ''join_game'',
       payload = [(''gameId'', JStr ''g1''), (''playerToken'', JStr ''tok'')]\<rparr>]"
    by code_simp
  have w: "\<not> window_hidden ?open"
    by simp
  have w2: "window_hidden (snd (on_click ClickConfirm ?open))"
    by code_simp
  note T = hidden_dialog_is_idle [of
        "[Recv (AbilityChoiceRequired (blank_prompt\<lparr>abilityUsed := ''burn''\<rparr>)), User ClickClose]"
        "''g1''" blank_page ?open]
  have idle: "outbox (snd (on_click ClickConfirm ?closed)) = outbox ?closed"
    using T [THEN conjunct2, THEN conjunct1] h by blast
  have paths: "\<not> window_hidden ?open \<and> window_hidden (snd (on_click ClickConfirm ?open)) \<longrightarrow>
      currentAbility (snd (on_click ClickConfirm ?open)) = None \<and>
      currentChoices (snd (on_click ClickConfirm ?open)) = None"
    using T [THEN conjunct2, THEN conjunct2, THEN conjunct1] by (rule spec)
  show ?thesis
    using h o w w2 idle paths by simp
qed

end
